theory Spec2Isabelle
  imports Complex_Main "HOL-Library.Sublist"
begin

section \<open>Data model of the metadata store\<close>

text \<open>
  The Python values the module handles dynamically: the result of the property
  reader, slice keys and their dimensions, the fields of a metric value.
\<close>

datatype pyval =
    PyNone
  | PyInt int
  | PyFloat real
  | PyStr string
  | PyTuple "pyval list"
  | PyDict "(string \<times> pyval) list"

text \<open>
  The store's typed property value: a variant with at most one populated field.
  The field names are the accessor names the source uses (\<open>int_value\<close>,
  \<open>double_value\<close>, \<open>string_value\<close>).
\<close>

datatype mlmd_value =
    IntValue int
  | DoubleValue real
  | StringValue string
  | NoValue

text \<open>Modelled from the spec: the name of the populated variant field, if any
  (the store's value type is external to the module).\<close>

fun WhichOneof :: "mlmd_value \<Rightarrow> string option" where
  "WhichOneof (IntValue i) = Some ''int_value''"
| "WhichOneof (DoubleValue d) = Some ''double_value''"
| "WhichOneof (StringValue s) = Some ''string_value''"
| "WhichOneof NoValue = None"

text \<open>Modelled from the spec: reading a variant field that is not the populated
  one yields the field's default (0, 0.0, the empty text).\<close>

fun int_value :: "mlmd_value \<Rightarrow> int" where
  "int_value (IntValue i) = i"
| "int_value v = 0"

fun double_value :: "mlmd_value \<Rightarrow> real" where
  "double_value (DoubleValue d) = d"
| "double_value v = 0"

fun string_value :: "mlmd_value \<Rightarrow> string" where
  "string_value (StringValue s) = s"
| "string_value v = []"

record node =
  node_id :: int
  type_id :: int
  properties :: "string \<rightharpoonup> mlmd_value"
  custom_properties :: "string \<rightharpoonup> mlmd_value"

record artifact = node +
  uri :: string

type_synonym execution = node

datatype event_type =
    UNKNOWN
  | DECLARED_OUTPUT
  | DECLARED_INPUT
  | INPUT
  | OUTPUT
  | INTERNAL_INPUT
  | INTERNAL_OUTPUT

record event =
  ev_artifact_id :: int
  ev_execution_id :: int
  ev_type :: event_type

record artifact_type =
  at_id :: int
  at_name :: string

record execution_type =
  et_id :: int
  et_name :: string

record store =
  artifact_types :: "artifact_type list"
  execution_types :: "execution_type list"
  artifacts :: "artifact list"
  executions :: "execution list"
  events :: "event list"

subsection \<open>The store's query surface\<close>

text \<open>Modelled from the spec: fetch all artifact types (the store client is
  external to the module).\<close>

definition get_artifact_types :: "store \<Rightarrow> artifact_type list" where
  "get_artifact_types s = artifact_types s"

text \<open>Modelled from the spec: fetch all execution types.\<close>

definition get_execution_types :: "store \<Rightarrow> execution_type list" where
  "get_execution_types s = execution_types s"

text \<open>Modelled from the spec: fetch artifacts by id set; an id that names no
  artifact contributes nothing.\<close>

definition get_artifacts_by_id :: "store \<Rightarrow> int set \<Rightarrow> artifact list" where
  "get_artifacts_by_id s ids = filter (\<lambda>a. node_id a \<in> ids) (artifacts s)"

text \<open>Modelled from the spec: fetch executions by id set.\<close>

definition get_executions_by_id :: "store \<Rightarrow> int set \<Rightarrow> execution list" where
  "get_executions_by_id s ids = filter (\<lambda>x. node_id x \<in> ids) (executions s)"

text \<open>Modelled from the spec: fetch events by artifact-id set.\<close>

definition get_events_by_artifact_ids :: "store \<Rightarrow> int set \<Rightarrow> event list" where
  "get_events_by_artifact_ids s ids = filter (\<lambda>e. ev_artifact_id e \<in> ids) (events s)"

text \<open>Modelled from the spec: fetch events by execution-id set.\<close>

definition get_events_by_execution_ids :: "store \<Rightarrow> int set \<Rightarrow> event list" where
  "get_events_by_execution_ids s ids = filter (\<lambda>e. ev_execution_id e \<in> ids) (events s)"

section \<open>Type resolver\<close>

definition TFX_DATASET_TYPE :: string where
  "TFX_DATASET_TYPE = ''Examples''"

definition TFX_STATS_TYPE :: string where
  "TFX_STATS_TYPE = ''ExampleStatistics''"

definition TFX_MODEL_TYPE :: string where
  "TFX_MODEL_TYPE = ''Model''"

definition TFX_METRICS_TYPE :: string where
  "TFX_METRICS_TYPE = ''ModelEvaluation''"

definition TFX_TRAINER_TYPE :: string where
  "TFX_TRAINER_TYPE = ''tfx.components.trainer.component.Trainer''"

record PipelineTypes =
  dataset_type :: artifact_type
  stats_type :: artifact_type
  model_type :: artifact_type
  metrics_type :: artifact_type
  trainer_type :: execution_type

text \<open>Every failure the module raises itself, and the failures Python raises
  inside the metric annotator.\<close>

datatype error =
    MissingArtifactTypes "string set"
  | MissingExecutionTypes "string set"
  | ModelIdNotFound int
  | NotAModel artifact
  | SliceNotTuple pyval
  | UnexpectedMetricValue "string list"
  | UnpackError pyval
  | KeyError string
  | TypeError pyval

text \<open>The dict comprehension \<open>{t.name: t for t in ts}\<close>: a later entry with the
  same name replaces an earlier one.\<close>

definition index_by_name :: "('t \<Rightarrow> string) \<Rightarrow> 't list \<Rightarrow> (string \<rightharpoonup> 't)" where
  "index_by_name nm ts = fold (\<lambda>t m. m(nm t \<mapsto> t)) ts Map.empty"

text \<open>The set difference \<open>expected.difference(d.keys())\<close> is written as the
  expected names that are no key of the dict \<open>d\<close>.\<close>

definition get_tfx_pipeline_types :: "store \<Rightarrow> error + PipelineTypes" where
  "get_tfx_pipeline_types s =
     (let atypes = index_by_name at_name (get_artifact_types s);
          expected_artifact_types =
            {TFX_DATASET_TYPE, TFX_STATS_TYPE, TFX_MODEL_TYPE, TFX_METRICS_TYPE};
          missing_types = Set.filter (\<lambda>n. atypes n = None) expected_artifact_types
      in if missing_types \<noteq> {} then Inl (MissingArtifactTypes missing_types)
         else
           let etypes = index_by_name et_name (get_execution_types s);
               expected_execution_types = {TFX_TRAINER_TYPE};
               missing_types = Set.filter (\<lambda>n. etypes n = None) expected_execution_types
           in if missing_types \<noteq> {} then Inl (MissingExecutionTypes missing_types)
              else Inr \<lparr> dataset_type = the (atypes TFX_DATASET_TYPE),
                         stats_type = the (atypes TFX_STATS_TYPE),
                         model_type = the (atypes TFX_MODEL_TYPE),
                         metrics_type = the (atypes TFX_METRICS_TYPE),
                         trainer_type = the (etypes TFX_TRAINER_TYPE) \<rparr>)"

section \<open>Model validator\<close>

definition validate_model_id :: "store \<Rightarrow> artifact_type \<Rightarrow> int \<Rightarrow> error + artifact" where
  "validate_model_id s mtype model_id =
     (case get_artifacts_by_id s {model_id} of
        [] \<Rightarrow> Inl (ModelIdNotFound model_id)
      | model # rest \<Rightarrow>
          if type_id model \<noteq> at_id mtype then Inl (NotAModel model)
          else Inr model)"

section \<open>Lineage walker\<close>

datatype Direction = ANCESTOR | SUCCESSOR

text \<open>The two event-type pairs a direction selects: first the pair for the hop
  from artifacts to executions, then the pair for the hop back to artifacts.\<close>

fun traverse_events :: "Direction \<Rightarrow> event_type set \<times> event_type set" where
  "traverse_events ANCESTOR = ({OUTPUT, DECLARED_OUTPUT}, {INPUT, DECLARED_INPUT})"
| "traverse_events SUCCESSOR = ({INPUT, DECLARED_INPUT}, {OUTPUT, DECLARED_OUTPUT})"

definition get_one_hop_artifacts ::
  "store \<Rightarrow> int set \<Rightarrow> Direction \<Rightarrow> artifact_type option \<Rightarrow> artifact list" where
  "get_one_hop_artifacts s artifact_ids direction filter_type =
     (let executions_ids =
            set (map ev_execution_id
                  (filter (\<lambda>e. ev_type e \<in> fst (traverse_events direction))
                          (get_events_by_artifact_ids s artifact_ids)));
          artifacts_ids =
            set (map ev_artifact_id
                  (filter (\<lambda>e. ev_type e \<in> snd (traverse_events direction))
                          (get_events_by_execution_ids s executions_ids)))
      in filter (\<lambda>a. case filter_type of None \<Rightarrow> True
                                          | Some t \<Rightarrow> type_id a = at_id t)
                (get_artifacts_by_id s artifacts_ids))"

definition get_one_hop_executions ::
  "store \<Rightarrow> int set \<Rightarrow> Direction \<Rightarrow> execution_type option \<Rightarrow> execution list" where
  "get_one_hop_executions s artifact_ids direction filter_type =
     (let traverse_event =
            (case direction of
               ANCESTOR \<Rightarrow> {OUTPUT, DECLARED_OUTPUT}
             | SUCCESSOR \<Rightarrow> {INPUT, DECLARED_INPUT});
          executions_ids =
            set (map ev_execution_id
                  (filter (\<lambda>e. ev_type e \<in> traverse_event)
                          (get_events_by_artifact_ids s artifact_ids)))
      in filter (\<lambda>x. case filter_type of None \<Rightarrow> True
                                          | Some t \<Rightarrow> type_id x = et_id t)
                (get_executions_by_id s executions_ids))"

section \<open>Lineage assemblers\<close>

definition get_metrics_artifacts_for_model ::
  "store \<Rightarrow> int \<Rightarrow> PipelineTypes option \<Rightarrow> error + artifact list" where
  "get_metrics_artifacts_for_model s model_id pipeline_types =
     (case (case pipeline_types of None \<Rightarrow> get_tfx_pipeline_types s
                                   | Some pt \<Rightarrow> Inr pt) of
        Inl e \<Rightarrow> Inl e
      | Inr pt \<Rightarrow>
          (case validate_model_id s (model_type pt) model_id of
             Inl e \<Rightarrow> Inl e
           | Inr model \<Rightarrow>
               Inr (get_one_hop_artifacts s {model_id} SUCCESSOR
                      (Some (metrics_type pt)))))"

text \<open>Python's \<open>str.find\<close>: the lowest index at which the substring starts,
  or -1 when it does not occur.\<close>

fun str_find :: "string \<Rightarrow> string \<Rightarrow> int" where
  "str_find [] sub = (if sub = [] then 0 else - 1)"
| "str_find (c # cs) sub =
     (if prefix sub (c # cs) then 0
      else (let r = str_find cs sub in if r = - 1 then - 1 else r + 1))"

text \<open>The loop that sorts the trainer's examples into original datasets and
  transformed examples; the state is the pair
  \<open>(dataset_ids, transformed_example_ids)\<close>.\<close>

definition split_examples :: "artifact list \<Rightarrow> int set \<times> int set" where
  "split_examples trainer_examples =
     fold (\<lambda>example (dataset_ids, transformed_example_ids).
             if str_find (uri example) ''/Transform/'' \<noteq> - 1
             then (dataset_ids, insert (node_id example) transformed_example_ids)
             else (insert (node_id example) dataset_ids, transformed_example_ids))
          trainer_examples ({}, {})"

definition get_stats_artifacts_for_model ::
  "store \<Rightarrow> int \<Rightarrow> PipelineTypes option \<Rightarrow> error + artifact list" where
  "get_stats_artifacts_for_model s model_id pipeline_types =
     (case (case pipeline_types of None \<Rightarrow> get_tfx_pipeline_types s
                                   | Some pt \<Rightarrow> Inr pt) of
        Inl e \<Rightarrow> Inl e
      | Inr pt \<Rightarrow>
          (case validate_model_id s (model_type pt) model_id of
             Inl e \<Rightarrow> Inl e
           | Inr model \<Rightarrow>
               (let trainer_examples =
                      get_one_hop_artifacts s {model_id} ANCESTOR
                        (Some (dataset_type pt));
                    (dataset_ids, transformed_example_ids) =
                      split_examples trainer_examples;
                    dataset_ids =
                      dataset_ids \<union>
                      set (map node_id
                            (get_one_hop_artifacts s transformed_example_ids
                               ANCESTOR (Some (dataset_type pt))))
                in Inr (get_one_hop_artifacts s dataset_ids SUCCESSOR
                          (Some (stats_type pt))))))"

section \<open>Property reader\<close>

definition property_value ::
  "'a node_scheme \<Rightarrow> string \<Rightarrow> bool \<Rightarrow> pyval option" where
  "property_value nd name is_custom_property =
     (let props = (if is_custom_property then custom_properties nd
                   else properties nd)
      in case props name of
           None \<Rightarrow> None
         | Some v \<Rightarrow>
             if WhichOneof v = Some ''int_value'' then Some (PyInt (int_value v))
             else if WhichOneof v = Some ''float_value''
             then Some (PyFloat (double_value v))
             else Some (PyStr (string_value v)))"

section \<open>Model card\<close>

record Reference =
  reference :: "pyval option"

record Version =
  version_name :: "pyval option"

record ModelDetails =
  md_name :: "pyval option"
  md_version :: Version
  md_references :: "Reference list"

record PerformanceMetric =
  pm_type :: string
  pm_value :: string
  pm_slice :: string

record QuantitativeAnalysis =
  performance_metrics :: "PerformanceMetric list"

record ModelCard =
  model_details :: ModelDetails
  quantitative_analysis :: QuantitativeAnalysis

text \<open>Modelled from the spec: a freshly constructed model card (the model-card
  schema is a module of its own); its model details are at their default, empty
  values and it holds no performance metric.\<close>

definition new_ModelCard :: ModelCard where
  "new_ModelCard =
     \<lparr> model_details =
         \<lparr> md_name = None, md_version = \<lparr> version_name = None \<rparr>,
           md_references = [] \<rparr>,
       quantitative_analysis = \<lparr> performance_metrics = [] \<rparr> \<rparr>"

definition generate_model_card_for_model ::
  "store \<Rightarrow> int \<Rightarrow> PipelineTypes option \<Rightarrow> error + ModelCard" where
  "generate_model_card_for_model s model_id pipeline_types =
     (case (case pipeline_types of None \<Rightarrow> get_tfx_pipeline_types s
                                   | Some pt \<Rightarrow> Inr pt) of
        Inl e \<Rightarrow> Inl e
      | Inr pt \<Rightarrow>
          (case validate_model_id s (model_type pt) model_id of
             Inl e \<Rightarrow> Inl e
           | Inr model \<Rightarrow>
               (let model_card = new_ModelCard;
                    trainers = get_one_hop_executions s {model_id} ANCESTOR
                                 (Some (trainer_type pt))
                in if trainers \<noteq> [] then
                     Inr (model_card
                       \<lparr> model_details :=
                           (model_details model_card)
                             \<lparr> md_name :=
                                 property_value (last trainers) ''module_file'' False,
                               md_version :=
                                 (md_version (model_details model_card))
                                   \<lparr> version_name :=
                                       property_value (hd trainers) ''checksum_md5'' False \<rparr>,
                               md_references :=
                                 [\<lparr> reference =
                                      property_value (hd trainers) ''pipeline_name'' False \<rparr>]
                             \<rparr> \<rparr>)
                   else Inr model_card)))"

section \<open>Metric annotator\<close>

text \<open>Unpacking one element of a slice key into two targets (\<open>for a, b in ...\<close>):
  a sequence of exactly two items unpacks, any other sequence fails on its
  length, and a value that is no sequence fails on its type.\<close>

fun unpack2 :: "pyval \<Rightarrow> error + (pyval \<times> pyval)" where
  "unpack2 (PyTuple [a, b]) = Inr (a, b)"
| "unpack2 (PyStr [c, d]) = Inr (PyStr [c], PyStr [d])"
| "unpack2 (PyDict [(k1, v1), (k2, v2)]) = Inr (PyStr k1, PyStr k2)"
| "unpack2 PyNone = Inl (TypeError PyNone)"
| "unpack2 (PyInt i) = Inl (TypeError (PyInt i))"
| "unpack2 (PyFloat x) = Inl (TypeError (PyFloat x))"
| "unpack2 v = Inl (UnpackError v)"

text \<open>The generator \<open>f'{a}_{b}' for a, b in slice_repr\<close>; \<open>str\<close> is Python's text
  rendering of a value, which the module takes from the language.\<close>

fun format_dims :: "(pyval \<Rightarrow> string) \<Rightarrow> pyval list \<Rightarrow> error + string list" where
  "format_dims str [] = Inr []"
| "format_dims str (x # xs) =
     (case unpack2 x of
        Inl e \<Rightarrow> Inl e
      | Inr (a, b) \<Rightarrow>
          (case format_dims str xs of
             Inl e \<Rightarrow> Inl e
           | Inr ys \<Rightarrow> Inr ((str a @ ''_'' @ str b) # ys)))"

text \<open>Python's \<open>sep.join\<close>.\<close>

fun join :: "string \<Rightarrow> string list \<Rightarrow> string" where
  "join sep [] = []"
| "join sep [x] = x"
| "join sep (x # y # ys) = x @ sep @ join sep (y # ys)"

text \<open>Subscripting a value with a text key.\<close>

fun subscript :: "pyval \<Rightarrow> string \<Rightarrow> error + pyval" where
  "subscript (PyDict d) k =
     (case map_of d k of None \<Rightarrow> Inl (KeyError k) | Some v \<Rightarrow> Inr v)"
| "subscript v k = Inl (TypeError v)"

definition parse_metric_value :: "(string \<times> pyval) list \<Rightarrow> error + pyval" where
  "parse_metric_value metric_value =
     (if ''doubleValue'' \<in> fst ` set metric_value
      then Inr (the (map_of metric_value ''doubleValue''))
      else if ''boundedValue'' \<in> fst ` set metric_value
      then subscript (the (map_of metric_value ''boundedValue'')) ''value''
      else Inl (UnexpectedMetricValue (map fst metric_value)))"

definition append_metric :: "ModelCard \<Rightarrow> PerformanceMetric \<Rightarrow> ModelCard" where
  "append_metric model_card metric =
     model_card
       \<lparr> quantitative_analysis :=
           (quantitative_analysis model_card)
             \<lparr> performance_metrics :=
                 performance_metrics (quantitative_analysis model_card) @ [metric] \<rparr> \<rparr>"

text \<open>The inner loop over the metrics of one slice. A failure leaves the model
  card as the loop had it at that moment.\<close>

fun annotate_slice ::
  "(pyval \<Rightarrow> string) \<Rightarrow> string \<Rightarrow> (string \<times> (string \<times> pyval) list) list \<Rightarrow>
   ModelCard \<Rightarrow> (error + unit) \<times> ModelCard" where
  "annotate_slice str slice_name [] model_card = (Inr (), model_card)"
| "annotate_slice str slice_name ((metric_name, metric_value) # rest) model_card =
     (case parse_metric_value metric_value of
        Inl e \<Rightarrow> (Inl e, model_card)
      | Inr parsed_value \<Rightarrow>
          annotate_slice str slice_name rest
            (append_metric model_card
               \<lparr> pm_type = metric_name, pm_value = str parsed_value,
                 pm_slice = slice_name \<rparr>))"

text \<open>Modelled from the spec: the evaluation result is given as the items of
  its slice-to-metrics mapping, in encounter order (the evaluation library is
  external to the module).\<close>

type_synonym eval_result = "(pyval \<times> (string \<times> (string \<times> pyval) list) list) list"

fun annotate_eval_result_metrics ::
  "(pyval \<Rightarrow> string) \<Rightarrow> ModelCard \<Rightarrow> eval_result \<Rightarrow> (error + unit) \<times> ModelCard" where
  "annotate_eval_result_metrics str model_card [] = (Inr (), model_card)"
| "annotate_eval_result_metrics str model_card ((slice_repr, metrics_for_slice) # rest) =
     (case slice_repr of
        PyTuple dims \<Rightarrow>
          (case format_dims str dims of
             Inl e \<Rightarrow> (Inl e, model_card)
           | Inr parts \<Rightarrow>
               (case annotate_slice str (join ''_X_'' parts) metrics_for_slice model_card of
                  (Inl e, model_card') \<Rightarrow> (Inl e, model_card')
                | (Inr u, model_card') \<Rightarrow>
                    annotate_eval_result_metrics str model_card' rest))
      | _ \<Rightarrow> (Inl (SliceNotTuple slice_repr), model_card))"

text \<open>
  The scalar a metric value carries, in the words of the specification of the
  annotator: its direct scalar field or else the \<open>value\<close> sub-field of its
  bounded-value field. It is the reference the parsing of a metric value is
  compared with; the annotator does not use it.
\<close>

definition carried_scalar :: "(string \<times> pyval) list \<Rightarrow> pyval option" where
  "carried_scalar metric_value =
     (case map_of metric_value ''doubleValue'' of
        Some v \<Rightarrow> Some v
      | None \<Rightarrow>
          (case map_of metric_value ''boundedValue'' of
             Some (PyDict d) \<Rightarrow> map_of d ''value''
           | _ \<Rightarrow> None))"

text \<open>A model card with further records at the end of its performance-metric
  list and nothing else changed; used to state what the annotator leaves.\<close>

definition add_metrics :: "ModelCard \<Rightarrow> PerformanceMetric list \<Rightarrow> ModelCard" where
  "add_metrics model_card records =
     model_card
       \<lparr> quantitative_analysis :=
           (quantitative_analysis model_card)
             \<lparr> performance_metrics :=
                 performance_metrics (quantitative_analysis model_card) @ records \<rparr> \<rparr>"

section \<open>A small pipeline store and evaluation result\<close>

text \<open>
  One run of a pipeline: an example generator produces raw examples (artifact 1),
  a statistics generator reads them and produces statistics (2), a transform
  reads them and produces transformed examples (3), a trainer reads the
  transformed examples and produces a model (4), and an evaluator reads the
  model and the raw examples and produces an evaluation (5).
\<close>

definition demo_artifact_types :: "artifact_type list" where
  "demo_artifact_types =
     [\<lparr> at_id = 1, at_name = ''Examples'' \<rparr>,
      \<lparr> at_id = 2, at_name = ''ExampleStatistics'' \<rparr>,
      \<lparr> at_id = 3, at_name = ''Model'' \<rparr>,
      \<lparr> at_id = 4, at_name = ''ModelEvaluation'' \<rparr>]"

definition demo_execution_types :: "execution_type list" where
  "demo_execution_types =
     [\<lparr> et_id = 1, et_name = ''tfx.components.trainer.component.Trainer'' \<rparr>,
      \<lparr> et_id = 2, et_name = ''Other'' \<rparr>]"

definition demo_types :: PipelineTypes where
  "demo_types =
     \<lparr> dataset_type = \<lparr> at_id = 1, at_name = ''Examples'' \<rparr>,
       stats_type = \<lparr> at_id = 2, at_name = ''ExampleStatistics'' \<rparr>,
       model_type = \<lparr> at_id = 3, at_name = ''Model'' \<rparr>,
       metrics_type = \<lparr> at_id = 4, at_name = ''ModelEvaluation'' \<rparr>,
       trainer_type =
         \<lparr> et_id = 1, et_name = ''tfx.components.trainer.component.Trainer'' \<rparr> \<rparr>"

definition demo_artifact :: "int \<Rightarrow> int \<Rightarrow> string \<Rightarrow> artifact" where
  "demo_artifact i t u =
     \<lparr> node_id = i, type_id = t, properties = Map.empty,
       custom_properties = Map.empty, uri = u \<rparr>"

definition demo_artifacts :: "artifact list" where
  "demo_artifacts =
     [demo_artifact 1 1 ''/p/Gen/examples/1'',
      demo_artifact 2 2 ''/p/Stats/statistics/2'',
      demo_artifact 3 1 ''/p/Transform/examples/3'',
      demo_artifact 4 3 ''/p/Trainer/model/4'',
      demo_artifact 5 4 ''/p/Eval/evaluation/5'']"

definition demo_trainer :: "int \<Rightarrow> string \<Rightarrow> string \<Rightarrow> execution" where
  "demo_trainer i module_file checksum =
     \<lparr> node_id = i, type_id = 1,
       properties = [''module_file'' \<mapsto> StringValue module_file,
                     ''checksum_md5'' \<mapsto> StringValue checksum,
                     ''pipeline_name'' \<mapsto> StringValue ''taxi''],
       custom_properties = Map.empty \<rparr>"

definition demo_step :: "int \<Rightarrow> execution" where
  "demo_step i =
     \<lparr> node_id = i, type_id = 2, properties = Map.empty,
       custom_properties = Map.empty \<rparr>"

definition demo_executions :: "execution list" where
  "demo_executions =
     [demo_step 1, demo_step 2, demo_step 3, demo_trainer 4 ''m.py'' ''c4'',
      demo_step 5]"

definition demo_event :: "int \<Rightarrow> int \<Rightarrow> event_type \<Rightarrow> event" where
  "demo_event a x t = \<lparr> ev_artifact_id = a, ev_execution_id = x, ev_type = t \<rparr>"

definition demo_events :: "event list" where
  "demo_events =
     [demo_event 1 1 OUTPUT,
      demo_event 1 2 INPUT, demo_event 2 2 OUTPUT,
      demo_event 1 3 INPUT, demo_event 3 3 OUTPUT,
      demo_event 3 4 INPUT, demo_event 4 4 OUTPUT,
      demo_event 4 5 INPUT, demo_event 1 5 DECLARED_INPUT, demo_event 5 5 OUTPUT]"

definition demo_store :: store where
  "demo_store =
     \<lparr> artifact_types = demo_artifact_types,
       execution_types = demo_execution_types,
       artifacts = demo_artifacts,
       executions = demo_executions,
       events = demo_events \<rparr>"

text \<open>The same run with the trainer executed a second time for the same model.\<close>

definition demo_store_retrained :: store where
  "demo_store_retrained =
     demo_store
       \<lparr> executions := demo_executions @ [demo_trainer 6 ''m2.py'' ''c6''],
         events := demo_events @ [demo_event 4 6 DECLARED_OUTPUT] \<rparr>"

text \<open>The same run in a store that has no registered type at all.\<close>

definition demo_store_untyped :: store where
  "demo_store_untyped = demo_store \<lparr> artifact_types := [], execution_types := [] \<rparr>"

text \<open>A store with nothing in it.\<close>

definition empty_store :: store where
  "empty_store =
     \<lparr> artifact_types = [], execution_types = [], artifacts = [],
       executions = [], events = [] \<rparr>"

text \<open>A rendering of values as text that agrees with Python's \<open>str\<close> on texts,
  integers and \<open>None\<close>. The rendering of floats, tuples and dicts is not
  modelled: every theorem below holds for any rendering function, and this one
  only serves to evaluate the annotator on texts and integers.\<close>

function str_nat :: "nat \<Rightarrow> string" where
  "str_nat n =
     (if n < 10 then [''0123456789'' ! n]
      else str_nat (n div 10) @ [''0123456789'' ! (n mod 10)])"
  by pat_completeness auto
termination
  by (relation "measure (\<lambda>n. n)") auto

declare str_nat.simps [simp del]

fun demo_str :: "pyval \<Rightarrow> string" where
  "demo_str (PyStr s) = s"
| "demo_str (PyInt i) = (if i < 0 then ''-'' @ str_nat (nat (- i)) else str_nat (nat i))"
| "demo_str PyNone = ''None''"
| "demo_str v = ''?''"

text \<open>Two slices with two metrics each: a slice of two dimensions and the
  overall slice, whose key is the empty tuple.\<close>

definition demo_slices ::
  "((pyval \<times> pyval) list \<times> (string \<times> (string \<times> pyval) list) list) list" where
  "demo_slices =
     [([(PyStr ''gender'', PyStr ''male''), (PyStr ''age'', PyInt 10)],
       [(''loss'', [(''doubleValue'', PyInt 2)]),
        (''mean'', [(''boundedValue'',
                     PyDict [(''value'', PyInt 3), (''lower_bound'', PyInt 1)])])]),
      ([],
       [(''loss'', [(''doubleValue'', PyInt 1)]),
        (''mean'', [(''doubleValue'', PyInt 4)])])]"

definition demo_eval_result :: eval_result where
  "demo_eval_result =
     [(PyTuple [PyTuple [PyStr ''gender'', PyStr ''male''],
                PyTuple [PyStr ''age'', PyInt 10]],
       [(''loss'', [(''doubleValue'', PyInt 2)]),
        (''mean'', [(''boundedValue'',
                     PyDict [(''value'', PyInt 3), (''lower_bound'', PyInt 1)])])]),
      (PyTuple [],
       [(''loss'', [(''doubleValue'', PyInt 1)]),
        (''mean'', [(''doubleValue'', PyInt 4)])])]"

section \<open>Properties of the model validator\<close>

lemma filter_hd_find:
  "(case filter P xs of [] \<Rightarrow> a | m # rest \<Rightarrow> f m) =
   (case find P xs of None \<Rightarrow> a | Some m \<Rightarrow> f m)"
  by (induction xs) auto

lemma validate_model_id_find:
  "validate_model_id s mtype model_id =
     (case find (\<lambda>a. node_id a = model_id) (artifacts s) of
        None \<Rightarrow> Inl (ModelIdNotFound model_id)
      | Some m \<Rightarrow> if type_id m \<noteq> at_id mtype then Inl (NotAModel m) else Inr m)"
  unfolding validate_model_id_def get_artifacts_by_id_def
  by (simp add: filter_hd_find)

text \<open>
  C5. Model validation fails with a not-found error naming the id when the
  store holds no artifact with that id; when it holds one, the first artifact
  found is rejected with a not-a-Model error if its type id differs from the id
  of the resolved Model type and is returned otherwise. Each of the three
  model-keyed queries performs this validation once the types are resolved, and
  a validation failure is the query's failure.
\<close>

theorem validate_model_id_outcomes:
  "((\<forall>a\<in>set (artifacts s). node_id a \<noteq> model_id) \<longrightarrow>
      validate_model_id s mtype model_id = Inl (ModelIdNotFound model_id)) \<and>
   (\<forall>m. find (\<lambda>a. node_id a = model_id) (artifacts s) = Some m \<longrightarrow>
      validate_model_id s mtype model_id =
        (if type_id m \<noteq> at_id mtype then Inl (NotAModel m) else Inr m)) \<and>
   (\<forall>pt e. (case r of None \<Rightarrow> get_tfx_pipeline_types s | Some p \<Rightarrow> Inr p) = Inr pt \<and>
      validate_model_id s (model_type pt) model_id = Inl e \<longrightarrow>
      get_metrics_artifacts_for_model s model_id r = Inl e \<and>
      get_stats_artifacts_for_model s model_id r = Inl e \<and>
      generate_model_card_for_model s model_id r = Inl e)"
proof (intro conjI allI impI)
  assume "\<forall>a\<in>set (artifacts s). node_id a \<noteq> model_id"
  then have "find (\<lambda>a. node_id a = model_id) (artifacts s) = None"
    by (simp add: find_None_iff)
  then show "validate_model_id s mtype model_id = Inl (ModelIdNotFound model_id)"
    by (simp add: validate_model_id_find)
next
  fix m assume "find (\<lambda>a. node_id a = model_id) (artifacts s) = Some m"
  then show "validate_model_id s mtype model_id =
        (if type_id m \<noteq> at_id mtype then Inl (NotAModel m) else Inr m)"
    by (simp add: validate_model_id_find)
next
  fix pt e
  assume h: "(case r of None \<Rightarrow> get_tfx_pipeline_types s | Some p \<Rightarrow> Inr p) = Inr pt \<and>
      validate_model_id s (model_type pt) model_id = Inl e"
  then show "get_metrics_artifacts_for_model s model_id r = Inl e"
    by (simp add: get_metrics_artifacts_for_model_def)
  from h show "get_stats_artifacts_for_model s model_id r = Inl e"
    by (simp add: get_stats_artifacts_for_model_def)
  from h show "generate_model_card_for_model s model_id r = Inl e"
    by (simp add: generate_model_card_for_model_def)
qed

theorem validate_model_id_outcomes_witness:
  "9 \<notin> set (map node_id (artifacts demo_store)) \<and>
   validate_model_id demo_store (model_type demo_types) 9 = Inl (ModelIdNotFound 9) \<and>
   find (\<lambda>a. node_id a = 1) (artifacts demo_store) = Some (demo_artifact 1 1 ''/p/Gen/examples/1'') \<and>
   validate_model_id demo_store (model_type demo_types) 1 =
     Inl (NotAModel (demo_artifact 1 1 ''/p/Gen/examples/1'')) \<and>
   find (\<lambda>a. node_id a = 4) (artifacts demo_store) = Some (demo_artifact 4 3 ''/p/Trainer/model/4'') \<and>
   validate_model_id demo_store (model_type demo_types) 4 =
     Inr (demo_artifact 4 3 ''/p/Trainer/model/4'') \<and>
   get_metrics_artifacts_for_model demo_store 9 (Some demo_types) = Inl (ModelIdNotFound 9) \<and>
   get_stats_artifacts_for_model demo_store 9 (Some demo_types) = Inl (ModelIdNotFound 9) \<and>
   generate_model_card_for_model demo_store 9 (Some demo_types) = Inl (ModelIdNotFound 9)"
proof -
  have absent: "\<forall>a\<in>set (artifacts demo_store). node_id a \<noteq> 9"
    by (simp add: demo_store_def demo_artifacts_def demo_artifact_def)
  have f1: "find (\<lambda>a. node_id a = 1) (artifacts demo_store) =
              Some (demo_artifact 1 1 ''/p/Gen/examples/1'')"
    by (simp add: demo_store_def demo_artifacts_def demo_artifact_def)
  have f4: "find (\<lambda>a. node_id a = 4) (artifacts demo_store) =
              Some (demo_artifact 4 3 ''/p/Trainer/model/4'')"
    by (simp add: demo_store_def demo_artifacts_def demo_artifact_def)
  note w9 = validate_model_id_outcomes
              [of demo_store 9 "model_type demo_types" "Some demo_types"]
  note w1 = validate_model_id_outcomes
              [of demo_store 1 "model_type demo_types" "Some demo_types"]
  note w4 = validate_model_id_outcomes
              [of demo_store 4 "model_type demo_types" "Some demo_types"]
  from w9 absent have v9:
    "validate_model_id demo_store (model_type demo_types) 9 = Inl (ModelIdNotFound 9)"
    by blast
  from w9 v9 have q9:
    "get_metrics_artifacts_for_model demo_store 9 (Some demo_types) = Inl (ModelIdNotFound 9) \<and>
     get_stats_artifacts_for_model demo_store 9 (Some demo_types) = Inl (ModelIdNotFound 9) \<and>
     generate_model_card_for_model demo_store 9 (Some demo_types) = Inl (ModelIdNotFound 9)"
    by simp
  from w1 f1 have v1:
    "validate_model_id demo_store (model_type demo_types) 1 =
       Inl (NotAModel (demo_artifact 1 1 ''/p/Gen/examples/1''))"
    by (simp add: demo_types_def demo_artifact_def)
  from w4 f4 have v4:
    "validate_model_id demo_store (model_type demo_types) 4 =
       Inr (demo_artifact 4 3 ''/p/Trainer/model/4'')"
    by (simp add: demo_types_def demo_artifact_def)
  from absent have "9 \<notin> set (map node_id (artifacts demo_store))" by auto
  with v9 f1 v1 f4 v4 q9 show ?thesis by simp
qed

section \<open>Properties of the property reader\<close>

lemma property_value_variants:
  assumes "(if is_custom_property then custom_properties nd else properties nd) name = r"
  shows "(r = None \<longrightarrow> property_value nd name is_custom_property = None) \<and>
         (\<forall>i. r = Some (IntValue i) \<longrightarrow>
            property_value nd name is_custom_property = Some (PyInt i)) \<and>
         (\<forall>t. r = Some (StringValue t) \<longrightarrow>
            property_value nd name is_custom_property = Some (PyStr t)) \<and>
         (\<forall>x. r = Some (DoubleValue x) \<longrightarrow>
            property_value nd name is_custom_property = Some (PyStr []))"
  using assms by (auto simp: property_value_def)

text \<open>
  C8. The property reader returns absence for a name that the selected map does
  not hold and otherwise the value of the populated variant. On a property
  whose populated variant is the double variant the code does not do so: the
  variant's name is \<open>double_value\<close>, the code compares it with \<open>float_value\<close>,
  and the reader falls through to the text field, which is empty.
\<close>

theorem property_value_double_is_empty_text:
  "property_value (demo_step 1 \<lparr> properties := [''x'' \<mapsto> DoubleValue (1/2)] \<rparr>) ''x'' False = Some (PyStr [])
   \<and> property_value (demo_step 1 \<lparr> properties := [''x'' \<mapsto> DoubleValue (1/2)] \<rparr>) ''x'' False \<noteq> Some (PyFloat (1/2))"
  by (simp add: property_value_def demo_step_def)

section \<open>Properties of the lineage walker\<close>

lemma one_hop_artifacts_filter:
  "get_one_hop_artifacts s ids d ft =
     filter (\<lambda>a. (\<exists>e1\<in>set (events s). \<exists>e2\<in>set (events s).
                    ev_artifact_id e1 \<in> ids \<and> ev_type e1 \<in> fst (traverse_events d) \<and>
                    ev_execution_id e2 = ev_execution_id e1 \<and>
                    ev_type e2 \<in> snd (traverse_events d) \<and>
                    ev_artifact_id e2 = node_id a) \<and>
                  (case ft of None \<Rightarrow> True | Some t \<Rightarrow> type_id a = at_id t))
            (artifacts s)"
  unfolding get_one_hop_artifacts_def get_artifacts_by_id_def
    get_events_by_execution_ids_def get_events_by_artifact_ids_def Let_def filter_filter
  by (rule filter_cong [OF refl]) (auto simp: image_iff; blast)

lemma one_hop_artifacts_type:
  "a \<in> set (get_one_hop_artifacts s ids d (Some t)) \<Longrightarrow> type_id a = at_id t"
  by (simp add: get_one_hop_artifacts_def)

lemma one_hop_artifacts_distinct:
  "distinct (map node_id (artifacts s)) \<Longrightarrow>
   distinct (map node_id (get_one_hop_artifacts s ids d ft))"
  by (simp add: get_one_hop_artifacts_def get_artifacts_by_id_def Let_def distinct_map_filter)

text \<open>
  C1. With direction ANCESTOR the walk returns exactly the stored artifacts
  whose id is the artifact id of an INPUT or DECLARED_INPUT event of an
  execution that has an OUTPUT or DECLARED_OUTPUT event on one of the starting
  artifacts; with direction SUCCESSOR the two pairs of event types are swapped.
  The ids kept at each hop are sets, so an artifact reached along several
  events or executions appears as often as the store holds it and no more: the
  result is a filter of the store's artifact list, and it has distinct ids when
  the store has. When a type filter is given, every artifact in the result has
  the filter's type id.
\<close>

theorem one_hop_artifacts_walk:
  "get_one_hop_artifacts s ids ANCESTOR ft =
     filter (\<lambda>a. (\<exists>e1\<in>set (events s). \<exists>e2\<in>set (events s).
                    ev_artifact_id e1 \<in> ids \<and> ev_type e1 \<in> {OUTPUT, DECLARED_OUTPUT} \<and>
                    ev_execution_id e2 = ev_execution_id e1 \<and>
                    ev_type e2 \<in> {INPUT, DECLARED_INPUT} \<and>
                    ev_artifact_id e2 = node_id a) \<and>
                  (\<forall>t. ft = Some t \<longrightarrow> type_id a = at_id t))
            (artifacts s) \<and>
   get_one_hop_artifacts s ids SUCCESSOR ft =
     filter (\<lambda>a. (\<exists>e1\<in>set (events s). \<exists>e2\<in>set (events s).
                    ev_artifact_id e1 \<in> ids \<and> ev_type e1 \<in> {INPUT, DECLARED_INPUT} \<and>
                    ev_execution_id e2 = ev_execution_id e1 \<and>
                    ev_type e2 \<in> {OUTPUT, DECLARED_OUTPUT} \<and>
                    ev_artifact_id e2 = node_id a) \<and>
                  (\<forall>t. ft = Some t \<longrightarrow> type_id a = at_id t))
            (artifacts s) \<and>
   (\<forall>t. ft = Some t \<longrightarrow>
      (\<forall>a\<in>set (get_one_hop_artifacts s ids d ft). type_id a = at_id t)) \<and>
   (distinct (map node_id (artifacts s)) \<longrightarrow>
      distinct (map node_id (get_one_hop_artifacts s ids d ft)))"
proof -
  have flt: "(case ft of None \<Rightarrow> True | Some t \<Rightarrow> type_id a = at_id t) =
             (\<forall>t. ft = Some t \<longrightarrow> type_id a = at_id t)" for a :: artifact
    by (cases ft) simp_all
  have anc: "get_one_hop_artifacts s ids ANCESTOR ft =
     filter (\<lambda>a. (\<exists>e1\<in>set (events s). \<exists>e2\<in>set (events s).
                    ev_artifact_id e1 \<in> ids \<and> ev_type e1 \<in> {OUTPUT, DECLARED_OUTPUT} \<and>
                    ev_execution_id e2 = ev_execution_id e1 \<and>
                    ev_type e2 \<in> {INPUT, DECLARED_INPUT} \<and>
                    ev_artifact_id e2 = node_id a) \<and>
                  (\<forall>t. ft = Some t \<longrightarrow> type_id a = at_id t))
            (artifacts s)"
    using one_hop_artifacts_filter [of s ids ANCESTOR ft] by (simp only: flt traverse_events.simps fst_conv snd_conv)
  have suc: "get_one_hop_artifacts s ids SUCCESSOR ft =
     filter (\<lambda>a. (\<exists>e1\<in>set (events s). \<exists>e2\<in>set (events s).
                    ev_artifact_id e1 \<in> ids \<and> ev_type e1 \<in> {INPUT, DECLARED_INPUT} \<and>
                    ev_execution_id e2 = ev_execution_id e1 \<and>
                    ev_type e2 \<in> {OUTPUT, DECLARED_OUTPUT} \<and>
                    ev_artifact_id e2 = node_id a) \<and>
                  (\<forall>t. ft = Some t \<longrightarrow> type_id a = at_id t))
            (artifacts s)"
    using one_hop_artifacts_filter [of s ids SUCCESSOR ft] by (simp only: flt traverse_events.simps fst_conv snd_conv)
  have ty: "\<forall>t. ft = Some t \<longrightarrow>
      (\<forall>a\<in>set (get_one_hop_artifacts s ids d ft). type_id a = at_id t)"
    using one_hop_artifacts_type by blast
  have di: "distinct (map node_id (artifacts s)) \<longrightarrow>
      distinct (map node_id (get_one_hop_artifacts s ids d ft))"
    using one_hop_artifacts_distinct by blast
  from anc suc ty di show ?thesis by (intro conjI)
qed

theorem one_hop_artifacts_walk_witness:
  "get_one_hop_artifacts demo_store {4} ANCESTOR (Some (dataset_type demo_types)) =
     [demo_artifact 3 1 ''/p/Transform/examples/3''] \<and>
   get_one_hop_artifacts demo_store {1} SUCCESSOR None =
     [demo_artifact 2 2 ''/p/Stats/statistics/2'',
      demo_artifact 3 1 ''/p/Transform/examples/3'',
      demo_artifact 5 4 ''/p/Eval/evaluation/5''] \<and>
   get_one_hop_artifacts demo_store {1} SUCCESSOR (Some (stats_type demo_types)) =
     [demo_artifact 2 2 ''/p/Stats/statistics/2'']"
proof -
  note defs = demo_store_def demo_artifacts_def demo_artifact_def demo_events_def
    demo_event_def demo_types_def
  have a: "get_one_hop_artifacts demo_store {4} ANCESTOR (Some (dataset_type demo_types)) =
     [demo_artifact 3 1 ''/p/Transform/examples/3'']"
    using one_hop_artifacts_walk [of demo_store "{4}" "Some (dataset_type demo_types)" ANCESTOR, THEN conjunct1]
    by (simp add: defs)
  have b: "get_one_hop_artifacts demo_store {1} SUCCESSOR None =
     [demo_artifact 2 2 ''/p/Stats/statistics/2'',
      demo_artifact 3 1 ''/p/Transform/examples/3'',
      demo_artifact 5 4 ''/p/Eval/evaluation/5'']"
    using one_hop_artifacts_walk [of demo_store "{1}" None ANCESTOR, THEN conjunct2, THEN conjunct1]
    by (simp add: defs)
  have c: "get_one_hop_artifacts demo_store {1} SUCCESSOR (Some (stats_type demo_types)) =
     [demo_artifact 2 2 ''/p/Stats/statistics/2'']"
    using one_hop_artifacts_walk [of demo_store "{1}" "Some (stats_type demo_types)" ANCESTOR, THEN conjunct2, THEN conjunct1]
    by (simp add: defs)
  from a b c show ?thesis by (intro conjI)
qed

section \<open>Properties of the type resolver\<close>

lemma index_by_name_fold_None:
  "(fold (\<lambda>t m. m(nm t \<mapsto> t)) ts m0) n = None \<longleftrightarrow> m0 n = None \<and> n \<notin> nm ` set ts"
  by (induction ts arbitrary: m0) auto

lemma index_by_name_None: "index_by_name nm ts n = None \<longleftrightarrow> n \<notin> nm ` set ts"
  by (simp add: index_by_name_def index_by_name_fold_None)

lemma missing_names: "Set.filter (\<lambda>n. index_by_name nm ts n = None) E = E - nm ` set ts"
  by (auto simp: index_by_name_None)

lemma get_tfx_pipeline_types_missing_artifact_types:
  assumes "{TFX_DATASET_TYPE, TFX_STATS_TYPE, TFX_MODEL_TYPE, TFX_METRICS_TYPE} -
             at_name ` set (artifact_types s) \<noteq> {}"
  shows "get_tfx_pipeline_types s =
     Inl (MissingArtifactTypes
           ({TFX_DATASET_TYPE, TFX_STATS_TYPE, TFX_MODEL_TYPE, TFX_METRICS_TYPE} -
              at_name ` set (artifact_types s)))"
  unfolding get_tfx_pipeline_types_def Let_def missing_names get_artifact_types_def
  by (rule if_P) (rule assms)

lemma get_tfx_pipeline_types_missing_execution_types:
  assumes "{TFX_DATASET_TYPE, TFX_STATS_TYPE, TFX_MODEL_TYPE, TFX_METRICS_TYPE} -
             at_name ` set (artifact_types s) = {}"
      and "{TFX_TRAINER_TYPE} - et_name ` set (execution_types s) \<noteq> {}"
  shows "get_tfx_pipeline_types s =
     Inl (MissingExecutionTypes ({TFX_TRAINER_TYPE} - et_name ` set (execution_types s)))"
  unfolding get_tfx_pipeline_types_def Let_def missing_names get_artifact_types_def
    get_execution_types_def
  by (simp only: assms if_False if_True not_False_eq_True simp_thms)

text \<open>
  C3, as the code has it. A query entry point called without a registry fails
  before any validation or traversal (whatever the model id and whatever the
  store holds) when a required type name is absent. The resolver checks the
  artifact types first: when some of the four required artifact type names are
  absent, the failure names exactly the absent artifact type names; only when
  all four are present does it name the absent trainer execution type.
\<close>

theorem missing_types_fail_before_validation:
  assumes "A = {TFX_DATASET_TYPE, TFX_STATS_TYPE, TFX_MODEL_TYPE, TFX_METRICS_TYPE} -
                 at_name ` set (artifact_types s)"
      and "E = {TFX_TRAINER_TYPE} - et_name ` set (execution_types s)"
  shows "(A \<noteq> {} \<longrightarrow>
            get_metrics_artifacts_for_model s model_id None = Inl (MissingArtifactTypes A) \<and>
            get_stats_artifacts_for_model s model_id None = Inl (MissingArtifactTypes A) \<and>
            generate_model_card_for_model s model_id None = Inl (MissingArtifactTypes A)) \<and>
         (A = {} \<and> E \<noteq> {} \<longrightarrow>
            E = {TFX_TRAINER_TYPE} \<and>
            get_metrics_artifacts_for_model s model_id None = Inl (MissingExecutionTypes E) \<and>
            get_stats_artifacts_for_model s model_id None = Inl (MissingExecutionTypes E) \<and>
            generate_model_card_for_model s model_id None = Inl (MissingExecutionTypes E))"
proof (intro conjI impI)
  assume a: "A \<noteq> {}"
  with assms(1) have r: "get_tfx_pipeline_types s = Inl (MissingArtifactTypes A)"
    using get_tfx_pipeline_types_missing_artifact_types [of s] by simp
  from r show "get_metrics_artifacts_for_model s model_id None = Inl (MissingArtifactTypes A)"
    by (simp add: get_metrics_artifacts_for_model_def)
  from r show "get_stats_artifacts_for_model s model_id None = Inl (MissingArtifactTypes A)"
    by (simp add: get_stats_artifacts_for_model_def)
  from r show "generate_model_card_for_model s model_id None = Inl (MissingArtifactTypes A)"
    by (simp add: generate_model_card_for_model_def)
next
  assume a: "A = {} \<and> E \<noteq> {}"
  with assms have r: "get_tfx_pipeline_types s = Inl (MissingExecutionTypes E)"
    using get_tfx_pipeline_types_missing_execution_types [of s] by simp
  from a assms(2) show "E = {TFX_TRAINER_TYPE}" by auto
  from r show "get_metrics_artifacts_for_model s model_id None = Inl (MissingExecutionTypes E)"
    by (simp add: get_metrics_artifacts_for_model_def)
  from r show "get_stats_artifacts_for_model s model_id None = Inl (MissingExecutionTypes E)"
    by (simp add: get_stats_artifacts_for_model_def)
  from r show "generate_model_card_for_model s model_id None = Inl (MissingExecutionTypes E)"
    by (simp add: generate_model_card_for_model_def)
qed

theorem missing_types_fail_before_validation_witness:
  "get_metrics_artifacts_for_model demo_store_untyped 9 None =
     Inl (MissingArtifactTypes {''Examples'', ''ExampleStatistics'', ''Model'', ''ModelEvaluation''}) \<and>
   get_stats_artifacts_for_model demo_store_untyped 9 None =
     Inl (MissingArtifactTypes {''Examples'', ''ExampleStatistics'', ''Model'', ''ModelEvaluation''}) \<and>
   generate_model_card_for_model demo_store_untyped 9 None =
     Inl (MissingArtifactTypes {''Examples'', ''ExampleStatistics'', ''Model'', ''ModelEvaluation''}) \<and>
   get_metrics_artifacts_for_model (demo_store \<lparr> execution_types := [] \<rparr>) 9 None =
     Inl (MissingExecutionTypes {''tfx.components.trainer.component.Trainer''}) \<and>
   get_stats_artifacts_for_model (demo_store \<lparr> execution_types := [] \<rparr>) 9 None =
     Inl (MissingExecutionTypes {''tfx.components.trainer.component.Trainer''}) \<and>
   generate_model_card_for_model (demo_store \<lparr> execution_types := [] \<rparr>) 9 None =
     Inl (MissingExecutionTypes {''tfx.components.trainer.component.Trainer''})"
proof -
  note names = TFX_DATASET_TYPE_def TFX_STATS_TYPE_def TFX_MODEL_TYPE_def
    TFX_METRICS_TYPE_def TFX_TRAINER_TYPE_def
  have a1: "{TFX_DATASET_TYPE, TFX_STATS_TYPE, TFX_MODEL_TYPE, TFX_METRICS_TYPE} -
              at_name ` set (artifact_types demo_store_untyped) =
            {''Examples'', ''ExampleStatistics'', ''Model'', ''ModelEvaluation''}"
    by (simp add: demo_store_untyped_def names)
  have a2: "{TFX_DATASET_TYPE, TFX_STATS_TYPE, TFX_MODEL_TYPE, TFX_METRICS_TYPE} -
              at_name ` set (artifact_types (demo_store \<lparr> execution_types := [] \<rparr>)) = {}"
    by (simp add: demo_store_def demo_artifact_types_def names)
  have e2: "{TFX_TRAINER_TYPE} -
              et_name ` set (execution_types (demo_store \<lparr> execution_types := [] \<rparr>)) =
            {''tfx.components.trainer.component.Trainer''}"
    by (simp add: names)
  have ne: "{''Examples'', ''ExampleStatistics'', ''Model'', ''ModelEvaluation''} \<noteq> ({} :: string set)"
    by simp
  from missing_types_fail_before_validation [OF a1 [symmetric] refl, of 9] ne
  have w1: "get_metrics_artifacts_for_model demo_store_untyped 9 None =
     Inl (MissingArtifactTypes {''Examples'', ''ExampleStatistics'', ''Model'', ''ModelEvaluation''}) \<and>
   get_stats_artifacts_for_model demo_store_untyped 9 None =
     Inl (MissingArtifactTypes {''Examples'', ''ExampleStatistics'', ''Model'', ''ModelEvaluation''}) \<and>
   generate_model_card_for_model demo_store_untyped 9 None =
     Inl (MissingArtifactTypes {''Examples'', ''ExampleStatistics'', ''Model'', ''ModelEvaluation''})"
    by blast
  have ne2: "{''tfx.components.trainer.component.Trainer''} \<noteq> ({} :: string set)"
    by simp
  from missing_types_fail_before_validation [OF a2 [symmetric] e2 [symmetric], of 9] ne2
  have w2: "get_metrics_artifacts_for_model (demo_store \<lparr> execution_types := [] \<rparr>) 9 None =
     Inl (MissingExecutionTypes {''tfx.components.trainer.component.Trainer''}) \<and>
   get_stats_artifacts_for_model (demo_store \<lparr> execution_types := [] \<rparr>) 9 None =
     Inl (MissingExecutionTypes {''tfx.components.trainer.component.Trainer''}) \<and>
   generate_model_card_for_model (demo_store \<lparr> execution_types := [] \<rparr>) 9 None =
     Inl (MissingExecutionTypes {''tfx.components.trainer.component.Trainer''})"
    by blast
  from w1 w2 show ?thesis by (intro conjI; blast)
qed

text \<open>
  C3, as stated, asks the failure to name exactly the required names that are
  absent. In the store with nothing in it all five are absent, and the failure
  names the four artifact type names only: the trainer execution type is absent
  and not named.
\<close>

theorem missing_trainer_type_is_not_named:
  "get_metrics_artifacts_for_model empty_store 4 None =
     Inl (MissingArtifactTypes {''Examples'', ''ExampleStatistics'', ''Model'', ''ModelEvaluation''}) \<and>
   TFX_TRAINER_TYPE \<notin> set (map et_name (get_execution_types empty_store)) \<and>
   TFX_TRAINER_TYPE \<notin> {''Examples'', ''ExampleStatistics'', ''Model'', ''ModelEvaluation''}"
proof -
  note names = TFX_DATASET_TYPE_def TFX_STATS_TYPE_def TFX_MODEL_TYPE_def
    TFX_METRICS_TYPE_def TFX_TRAINER_TYPE_def
  have "get_tfx_pipeline_types empty_store =
     Inl (MissingArtifactTypes
           ({TFX_DATASET_TYPE, TFX_STATS_TYPE, TFX_MODEL_TYPE, TFX_METRICS_TYPE} -
              at_name ` set (artifact_types empty_store)))"
    by (rule get_tfx_pipeline_types_missing_artifact_types) (simp add: empty_store_def)
  then have "get_metrics_artifacts_for_model empty_store 4 None =
     Inl (MissingArtifactTypes {''Examples'', ''ExampleStatistics'', ''Model'', ''ModelEvaluation''})"
    by (simp add: get_metrics_artifacts_for_model_def empty_store_def names)
  moreover have "TFX_TRAINER_TYPE \<notin> set (map et_name (get_execution_types empty_store))"
    by (simp add: get_execution_types_def empty_store_def)
  moreover have "TFX_TRAINER_TYPE \<notin> {''Examples'', ''ExampleStatistics'', ''Model'', ''ModelEvaluation''}"
    by (simp add: names)
  ultimately show ?thesis by (intro conjI)
qed

section \<open>Queries with a registry supplied\<close>

lemma validate_model_id_errors:
  "validate_model_id s mtype model_id = Inl e \<Longrightarrow>
   e = ModelIdNotFound model_id \<or> (\<exists>m. e = NotAModel m)"
  by (auto simp: validate_model_id_def split: list.splits if_splits)

lemma queries_ignore_registered_types:
  "validate_model_id (s \<lparr> artifact_types := ats, execution_types := ets \<rparr>) mtype model_id =
     validate_model_id s mtype model_id"
  "get_one_hop_artifacts (s \<lparr> artifact_types := ats, execution_types := ets \<rparr>) ids d ft =
     get_one_hop_artifacts s ids d ft"
  "get_one_hop_executions (s \<lparr> artifact_types := ats, execution_types := ets \<rparr>) ids d fx =
     get_one_hop_executions s ids d fx"
  by (simp_all add: validate_model_id_def get_one_hop_artifacts_def get_one_hop_executions_def
      get_artifacts_by_id_def get_executions_by_id_def get_events_by_artifact_ids_def
      get_events_by_execution_ids_def)

text \<open>
  C9. When a registry is passed, none of the three queries looks at the types
  registered in the store: the result never is a missing-required-type failure,
  it is the same whatever artifact and execution types the store registers (in
  particular when it registers none), and the query succeeds whenever the model
  id validates against the registry's Model type.
\<close>

theorem registry_given_skips_type_check:
  "(\<forall>names.
      get_metrics_artifacts_for_model s model_id (Some pt) \<noteq> Inl (MissingArtifactTypes names) \<and>
      get_metrics_artifacts_for_model s model_id (Some pt) \<noteq> Inl (MissingExecutionTypes names) \<and>
      get_stats_artifacts_for_model s model_id (Some pt) \<noteq> Inl (MissingArtifactTypes names) \<and>
      get_stats_artifacts_for_model s model_id (Some pt) \<noteq> Inl (MissingExecutionTypes names) \<and>
      generate_model_card_for_model s model_id (Some pt) \<noteq> Inl (MissingArtifactTypes names) \<and>
      generate_model_card_for_model s model_id (Some pt) \<noteq> Inl (MissingExecutionTypes names)) \<and>
   get_metrics_artifacts_for_model (s \<lparr> artifact_types := ats, execution_types := ets \<rparr>)
       model_id (Some pt) = get_metrics_artifacts_for_model s model_id (Some pt) \<and>
   get_stats_artifacts_for_model (s \<lparr> artifact_types := ats, execution_types := ets \<rparr>)
       model_id (Some pt) = get_stats_artifacts_for_model s model_id (Some pt) \<and>
   generate_model_card_for_model (s \<lparr> artifact_types := ats, execution_types := ets \<rparr>)
       model_id (Some pt) = generate_model_card_for_model s model_id (Some pt) \<and>
   (\<forall>m. validate_model_id s (model_type pt) model_id = Inr m \<longrightarrow>
      (\<exists>r. get_metrics_artifacts_for_model s model_id (Some pt) = Inr r) \<and>
      (\<exists>r. get_stats_artifacts_for_model s model_id (Some pt) = Inr r) \<and>
      (\<exists>r. generate_model_card_for_model s model_id (Some pt) = Inr r))"
proof -
  have no_missing: "\<forall>names.
      get_metrics_artifacts_for_model s model_id (Some pt) \<noteq> Inl (MissingArtifactTypes names) \<and>
      get_metrics_artifacts_for_model s model_id (Some pt) \<noteq> Inl (MissingExecutionTypes names) \<and>
      get_stats_artifacts_for_model s model_id (Some pt) \<noteq> Inl (MissingArtifactTypes names) \<and>
      get_stats_artifacts_for_model s model_id (Some pt) \<noteq> Inl (MissingExecutionTypes names) \<and>
      generate_model_card_for_model s model_id (Some pt) \<noteq> Inl (MissingArtifactTypes names) \<and>
      generate_model_card_for_model s model_id (Some pt) \<noteq> Inl (MissingExecutionTypes names)"
  proof (cases "validate_model_id s (model_type pt) model_id")
    case (Inl e)
    from validate_model_id_errors [OF Inl] Inl show ?thesis
      by (auto simp: get_metrics_artifacts_for_model_def get_stats_artifacts_for_model_def
          generate_model_card_for_model_def)
  next
    case (Inr m)
    then show ?thesis
      by (simp add: get_metrics_artifacts_for_model_def get_stats_artifacts_for_model_def
          generate_model_card_for_model_def Let_def split: prod.splits)
  qed
  have same1: "get_metrics_artifacts_for_model (s \<lparr> artifact_types := ats, execution_types := ets \<rparr>)
       model_id (Some pt) = get_metrics_artifacts_for_model s model_id (Some pt)"
    by (simp add: get_metrics_artifacts_for_model_def queries_ignore_registered_types split: sum.splits)
  have same2: "get_stats_artifacts_for_model (s \<lparr> artifact_types := ats, execution_types := ets \<rparr>)
       model_id (Some pt) = get_stats_artifacts_for_model s model_id (Some pt)"
    by (simp add: get_stats_artifacts_for_model_def queries_ignore_registered_types split: sum.splits)
  have same3: "generate_model_card_for_model (s \<lparr> artifact_types := ats, execution_types := ets \<rparr>)
       model_id (Some pt) = generate_model_card_for_model s model_id (Some pt)"
    by (simp add: generate_model_card_for_model_def queries_ignore_registered_types split: sum.splits)
  have served: "\<forall>m. validate_model_id s (model_type pt) model_id = Inr m \<longrightarrow>
      (\<exists>r. get_metrics_artifacts_for_model s model_id (Some pt) = Inr r) \<and>
      (\<exists>r. get_stats_artifacts_for_model s model_id (Some pt) = Inr r) \<and>
      (\<exists>r. generate_model_card_for_model s model_id (Some pt) = Inr r)"
    by (simp add: get_metrics_artifacts_for_model_def get_stats_artifacts_for_model_def
          generate_model_card_for_model_def Let_def split: prod.splits)
  from no_missing same1 same2 same3 served show ?thesis by (intro conjI)
qed

theorem registry_given_skips_type_check_witness:
  "get_tfx_pipeline_types demo_store_untyped =
     Inl (MissingArtifactTypes
           ({TFX_DATASET_TYPE, TFX_STATS_TYPE, TFX_MODEL_TYPE, TFX_METRICS_TYPE} -
              at_name ` set (artifact_types demo_store_untyped))) \<and>
   validate_model_id demo_store (model_type demo_types) 4 =
     Inr (demo_artifact 4 3 ''/p/Trainer/model/4'') \<and>
   (\<exists>r. get_metrics_artifacts_for_model demo_store_untyped 4 (Some demo_types) = Inr r) \<and>
   (\<exists>r. get_stats_artifacts_for_model demo_store_untyped 4 (Some demo_types) = Inr r) \<and>
   (\<exists>r. generate_model_card_for_model demo_store_untyped 4 (Some demo_types) = Inr r)"
proof -
  have t: "get_tfx_pipeline_types demo_store_untyped =
     Inl (MissingArtifactTypes
           ({TFX_DATASET_TYPE, TFX_STATS_TYPE, TFX_MODEL_TYPE, TFX_METRICS_TYPE} -
              at_name ` set (artifact_types demo_store_untyped)))"
    by (rule get_tfx_pipeline_types_missing_artifact_types) (simp add: demo_store_untyped_def)
  have v: "validate_model_id demo_store (model_type demo_types) 4 =
     Inr (demo_artifact 4 3 ''/p/Trainer/model/4'')"
    by (simp add: validate_model_id_find demo_store_def demo_artifacts_def demo_artifact_def
        demo_types_def)
  note w = registry_given_skips_type_check [of demo_store 4 demo_types "[]" "[]"]
  from w v have
    "(\<exists>r. get_metrics_artifacts_for_model demo_store_untyped 4 (Some demo_types) = Inr r) \<and>
     (\<exists>r. get_stats_artifacts_for_model demo_store_untyped 4 (Some demo_types) = Inr r) \<and>
     (\<exists>r. generate_model_card_for_model demo_store_untyped 4 (Some demo_types) = Inr r)"
    unfolding demo_store_untyped_def by metis
  with t v show ?thesis by (intro conjI; blast)
qed

section \<open>Model-card generation\<close>

lemma get_tfx_pipeline_types_present:
  assumes "{TFX_DATASET_TYPE, TFX_STATS_TYPE, TFX_MODEL_TYPE, TFX_METRICS_TYPE} -
             at_name ` set (artifact_types s) = {}"
      and "{TFX_TRAINER_TYPE} - et_name ` set (execution_types s) = {}"
  shows "get_tfx_pipeline_types s =
     Inr \<lparr> dataset_type = the (index_by_name at_name (artifact_types s) TFX_DATASET_TYPE),
           stats_type = the (index_by_name at_name (artifact_types s) TFX_STATS_TYPE),
           model_type = the (index_by_name at_name (artifact_types s) TFX_MODEL_TYPE),
           metrics_type = the (index_by_name at_name (artifact_types s) TFX_METRICS_TYPE),
           trainer_type = the (index_by_name et_name (execution_types s) TFX_TRAINER_TYPE) \<rparr>"
  unfolding get_tfx_pipeline_types_def Let_def missing_names get_artifact_types_def
    get_execution_types_def
  by (simp only: assms if_False if_True not_False_eq_True simp_thms)

lemma demo_store_types:
  assumes "artifact_types s = demo_artifact_types" and "execution_types s = demo_execution_types"
  shows "get_tfx_pipeline_types s = Inr demo_types"
proof -
  note names = TFX_DATASET_TYPE_def TFX_STATS_TYPE_def TFX_MODEL_TYPE_def
    TFX_METRICS_TYPE_def TFX_TRAINER_TYPE_def
  have a: "{TFX_DATASET_TYPE, TFX_STATS_TYPE, TFX_MODEL_TYPE, TFX_METRICS_TYPE} -
             at_name ` set (artifact_types s) = {}"
    by (simp add: assms demo_artifact_types_def names)
  have e: "{TFX_TRAINER_TYPE} - et_name ` set (execution_types s) = {}"
    by (simp add: assms demo_execution_types_def names)
  show ?thesis
    unfolding get_tfx_pipeline_types_present [OF a e]
    by (simp add: assms demo_artifact_types_def demo_execution_types_def names
        index_by_name_def demo_types_def)
qed

text \<open>
  C4. Once the types are resolved and the model id is validated, model-card
  generation with a non-empty list of one-hop ANCESTOR trainer executions
  returns a card whose model name is the last trainer's \<open>module_file\<close>
  property, whose version label is the first trainer's \<open>checksum_md5\<close>
  property and whose reference list is the single entry holding the first
  trainer's \<open>pipeline_name\<close> property; with an empty list it returns the
  freshly constructed card, without failure.
\<close>

theorem model_card_from_trainers:
  assumes "(case r of None \<Rightarrow> get_tfx_pipeline_types s | Some p \<Rightarrow> Inr p) = Inr pt"
      and "validate_model_id s (model_type pt) model_id = Inr m"
      and "trainers = get_one_hop_executions s {model_id} ANCESTOR (Some (trainer_type pt))"
  shows "(trainers \<noteq> [] \<longrightarrow>
            (\<exists>mc. generate_model_card_for_model s model_id r = Inr mc \<and>
               md_name (model_details mc) =
                 property_value (last trainers) ''module_file'' False \<and>
               version_name (md_version (model_details mc)) =
                 property_value (hd trainers) ''checksum_md5'' False \<and>
               md_references (model_details mc) =
                 [\<lparr> reference = property_value (hd trainers) ''pipeline_name'' False \<rparr>] \<and>
               quantitative_analysis mc = quantitative_analysis new_ModelCard)) \<and>
         (trainers = [] \<longrightarrow> generate_model_card_for_model s model_id r = Inr new_ModelCard)"
  using assms by (simp add: generate_model_card_for_model_def Let_def)


theorem model_card_from_trainers_witness:
  "get_tfx_pipeline_types demo_store_retrained = Inr demo_types \<and>
   validate_model_id demo_store_retrained (model_type demo_types) 4 =
     Inr (demo_artifact 4 3 ''/p/Trainer/model/4'') \<and>
   get_one_hop_executions demo_store_retrained {4} ANCESTOR (Some (trainer_type demo_types)) =
     [demo_trainer 4 ''m.py'' ''c4'', demo_trainer 6 ''m2.py'' ''c6''] \<and>
   (\<exists>mc. generate_model_card_for_model demo_store_retrained 4 None = Inr mc \<and>
      md_name (model_details mc) = Some (PyStr ''m2.py'') \<and>
      version_name (md_version (model_details mc)) = Some (PyStr ''c4'') \<and>
      md_references (model_details mc) = [\<lparr> reference = Some (PyStr ''taxi'') \<rparr>]) \<and>
   get_one_hop_executions (demo_store \<lparr> events := [] \<rparr>) {4} ANCESTOR
     (Some (trainer_type demo_types)) = [] \<and>
   generate_model_card_for_model (demo_store \<lparr> events := [] \<rparr>) 4 None = Inr new_ModelCard"
proof -
  note defs = demo_store_retrained_def demo_store_def demo_artifacts_def demo_artifact_def
    demo_executions_def demo_events_def demo_event_def demo_types_def demo_step_def
  have t1: "(case None of None \<Rightarrow> get_tfx_pipeline_types demo_store_retrained
                          | Some p \<Rightarrow> Inr p) = Inr demo_types"
    by (simp add: demo_store_types demo_store_retrained_def demo_store_def)
  have v1: "validate_model_id demo_store_retrained (model_type demo_types) 4 =
     Inr (demo_artifact 4 3 ''/p/Trainer/model/4'')"
    by (simp add: validate_model_id_find defs)
  have x1: "get_one_hop_executions demo_store_retrained {4} ANCESTOR
      (Some (trainer_type demo_types)) =
     [demo_trainer 4 ''m.py'' ''c4'', demo_trainer 6 ''m2.py'' ''c6'']"
    by (simp add: get_one_hop_executions_def get_executions_by_id_def
        get_events_by_artifact_ids_def defs demo_trainer_def)
  have t2: "(case None of None \<Rightarrow> get_tfx_pipeline_types (demo_store \<lparr> events := [] \<rparr>)
                          | Some p \<Rightarrow> Inr p) = Inr demo_types"
    by (simp add: demo_store_types demo_store_def)
  have v2: "validate_model_id (demo_store \<lparr> events := [] \<rparr>) (model_type demo_types) 4 =
     Inr (demo_artifact 4 3 ''/p/Trainer/model/4'')"
    by (simp add: validate_model_id_find defs)
  have x2: "get_one_hop_executions (demo_store \<lparr> events := [] \<rparr>) {4} ANCESTOR
      (Some (trainer_type demo_types)) = []"
    by (simp add: get_one_hop_executions_def get_executions_by_id_def
        get_events_by_artifact_ids_def defs)
  from model_card_from_trainers [OF t1 v1 x1 [symmetric]]
  have c1: "\<exists>mc. generate_model_card_for_model demo_store_retrained 4 None = Inr mc \<and>
      md_name (model_details mc) = Some (PyStr ''m2.py'') \<and>
      version_name (md_version (model_details mc)) = Some (PyStr ''c4'') \<and>
      md_references (model_details mc) = [\<lparr> reference = Some (PyStr ''taxi'') \<rparr>]"
    by (auto simp: property_value_def demo_trainer_def)
  from model_card_from_trainers [OF t2 v2 x2 [symmetric]]
  have c2: "generate_model_card_for_model (demo_store \<lparr> events := [] \<rparr>) 4 None = Inr new_ModelCard"
    by simp
  from t1 have t1': "get_tfx_pipeline_types demo_store_retrained = Inr demo_types" by simp
  from t1' v1 x1 c1 x2 c2 show ?thesis by (intro conjI)
qed

section \<open>The statistics-for-model query\<close>

lemma str_find_lower: "- 1 \<le> str_find s sub"
  by (induction s) (auto simp: Let_def)

lemma str_find_sublist: "str_find s sub \<noteq> - 1 \<longleftrightarrow> sublist sub s"
proof (induction s)
  case Nil
  then show ?case by simp
next
  case (Cons c cs)
  show ?case
  proof (cases "prefix sub (c # cs)")
    case True
    then show ?thesis by (simp add: sublist_Cons_right)
  next
    case False
    have "str_find cs sub + 1 \<noteq> - 1"
      using str_find_lower [of cs sub] by arith
    with False Cons show ?thesis
      by (auto simp: sublist_Cons_right Let_def)
  qed
qed

lemma split_examples_fold:
  "fold (\<lambda>example (dataset_ids, transformed_example_ids).
           if str_find (uri example) sub \<noteq> - 1
           then (dataset_ids, insert (node_id example) transformed_example_ids)
           else (insert (node_id example) dataset_ids, transformed_example_ids))
        xs (D, T) =
     (D \<union> set (map node_id (filter (\<lambda>a. \<not> sublist sub (uri a)) xs)),
      T \<union> set (map node_id (filter (\<lambda>a. sublist sub (uri a)) xs)))"
  by (induction xs arbitrary: D T) (auto simp: str_find_sublist)

lemma split_examples_partition:
  "split_examples xs =
     (set (map node_id (filter (\<lambda>a. \<not> sublist ''/Transform/'' (uri a)) xs)),
      set (map node_id (filter (\<lambda>a. sublist ''/Transform/'' (uri a)) xs)))"
  unfolding split_examples_def split_examples_fold by simp

lemma one_hop_artifacts_union:
  "set (get_one_hop_artifacts s ids d ft) = (\<Union>i\<in>ids. set (get_one_hop_artifacts s {i} d ft))"
  unfolding one_hop_artifacts_filter by auto

lemma one_hop_artifacts_each:
  "set (map node_id (get_one_hop_artifacts s (set (map node_id ts)) d ft)) =
     (\<Union>t\<in>set ts. set (map node_id (get_one_hop_artifacts s {node_id t} d ft)))"
  using one_hop_artifacts_union [of s "set (map node_id ts)" d ft] by auto

text \<open>
  C2. For a valid model id (the types resolve and the id validates), the
  statistics query takes the model's one-hop ANCESTOR artifacts of the Dataset
  type, keeps the ids of those whose URI does not contain \<open>/Transform/\<close>,
  replaces each one whose URI contains it by the ids of the Dataset artifacts
  one further ANCESTOR hop away, and returns the SUCCESSOR hop from the union
  of the two id sets, filtered to the Statistics type.
\<close>

theorem stats_for_model_traversal:
  assumes "(case r of None \<Rightarrow> get_tfx_pipeline_types s | Some p \<Rightarrow> Inr p) = Inr pt"
      and "validate_model_id s (model_type pt) model_id = Inr m"
      and "trainer_examples =
             get_one_hop_artifacts s {model_id} ANCESTOR (Some (dataset_type pt))"
  shows "get_stats_artifacts_for_model s model_id r =
     Inr (get_one_hop_artifacts s
            (set (map node_id
                   (filter (\<lambda>a. \<not> sublist ''/Transform/'' (uri a)) trainer_examples)) \<union>
             (\<Union>t\<in>set (filter (\<lambda>a. sublist ''/Transform/'' (uri a)) trainer_examples).
                 set (map node_id
                       (get_one_hop_artifacts s {node_id t} ANCESTOR
                          (Some (dataset_type pt))))))
            SUCCESSOR (Some (stats_type pt)))"
  using assms
  by (simp only: get_stats_artifacts_for_model_def sum.case Let_def split_examples_partition
      prod.case one_hop_artifacts_each)

theorem stats_for_model_traversal_witness:
  "get_tfx_pipeline_types demo_store = Inr demo_types \<and>
   validate_model_id demo_store (model_type demo_types) 4 =
     Inr (demo_artifact 4 3 ''/p/Trainer/model/4'') \<and>
   get_one_hop_artifacts demo_store {4} ANCESTOR (Some (dataset_type demo_types)) =
     [demo_artifact 3 1 ''/p/Transform/examples/3''] \<and>
   sublist ''/Transform/'' (uri (demo_artifact 3 1 ''/p/Transform/examples/3'')) \<and>
   get_one_hop_artifacts demo_store {3} ANCESTOR (Some (dataset_type demo_types)) =
     [demo_artifact 1 1 ''/p/Gen/examples/1''] \<and>
   get_stats_artifacts_for_model demo_store 4 None =
     Inr [demo_artifact 2 2 ''/p/Stats/statistics/2'']"
proof -
  note defs = demo_store_def demo_artifacts_def demo_artifact_def
    demo_events_def demo_event_def demo_types_def
  have t: "(case None of None \<Rightarrow> get_tfx_pipeline_types demo_store | Some p \<Rightarrow> Inr p) =
           Inr demo_types"
    by (simp add: demo_store_types demo_store_def)
  have v: "validate_model_id demo_store (model_type demo_types) 4 =
     Inr (demo_artifact 4 3 ''/p/Trainer/model/4'')"
    by (simp add: validate_model_id_find defs)
  have x: "get_one_hop_artifacts demo_store {4} ANCESTOR (Some (dataset_type demo_types)) =
     [demo_artifact 3 1 ''/p/Transform/examples/3'']"
    by (simp add: one_hop_artifacts_filter defs)
  have sub: "sublist ''/Transform/'' (uri (demo_artifact 3 1 ''/p/Transform/examples/3''))"
    by (simp add: demo_artifact_def sublist_code prefix_code)
  have y: "get_one_hop_artifacts demo_store {3} ANCESTOR (Some (dataset_type demo_types)) =
     [demo_artifact 1 1 ''/p/Gen/examples/1'']"
    by (simp add: one_hop_artifacts_filter defs)
  have z: "get_one_hop_artifacts demo_store {1} SUCCESSOR (Some (stats_type demo_types)) =
     [demo_artifact 2 2 ''/p/Stats/statistics/2'']"
    by (simp add: one_hop_artifacts_filter defs)
  have n3: "node_id (demo_artifact 3 1 ''/p/Transform/examples/3'') = 3"
    and n1: "node_id (demo_artifact 1 1 ''/p/Gen/examples/1'') = 1"
    by (simp_all add: demo_artifact_def)
  from stats_for_model_traversal [OF t v x [symmetric]]
  have "get_stats_artifacts_for_model demo_store 4 None =
     Inr [demo_artifact 2 2 ''/p/Stats/statistics/2'']"
    by (simp add: sub n3 y n1 z)
  with t v x sub y show ?thesis by simp
qed

section \<open>Properties of the metric annotator\<close>

lemma in_keys_map_of: "k \<in> fst ` set d \<longleftrightarrow> map_of d k \<noteq> None"
  by (simp add: map_of_eq_None_iff)

lemma parse_metric_value_carried:
  "carried_scalar mv = Some v \<Longrightarrow> parse_metric_value mv = Inr v"
  by (auto simp: carried_scalar_def parse_metric_value_def in_keys_map_of
      split: option.splits pyval.splits)

lemma parse_metric_value_neither:
  "map_of mv ''doubleValue'' = None \<Longrightarrow> map_of mv ''boundedValue'' = None \<Longrightarrow>
   parse_metric_value mv = Inl (UnexpectedMetricValue (map fst mv))"
  by (simp add: parse_metric_value_def in_keys_map_of)

lemma parse_metric_value_direct:
  "map_of mv ''doubleValue'' = Some v \<Longrightarrow> parse_metric_value mv = Inr v"
  by (simp add: parse_metric_value_def in_keys_map_of)

lemma add_metrics_simps:
  "add_metrics mc [] = mc"
  "add_metrics (append_metric mc r) rs = add_metrics mc (r # rs)"
  "add_metrics (add_metrics mc rs) rs' = add_metrics mc (rs @ rs')"
  by (simp_all add: add_metrics_def append_metric_def)

lemma annotate_slice_well_shaped:
  "\<forall>(n, mv)\<in>set ms. carried_scalar mv \<noteq> None \<Longrightarrow>
   annotate_slice str nm ms mc =
     (Inr (), add_metrics mc
        (map (\<lambda>(n, mv). \<lparr> pm_type = n, pm_value = str (the (carried_scalar mv)),
                           pm_slice = nm \<rparr>) ms))"
proof (induction ms arbitrary: mc)
  case Nil
  then show ?case by (simp add: add_metrics_simps)
next
  case (Cons x ms)
  obtain n mv where x: "x = (n, mv)" by (cases x)
  with Cons.prems obtain v where v: "carried_scalar mv = Some v" by auto
  from Cons.prems have rest: "\<forall>(n, mv)\<in>set ms. carried_scalar mv \<noteq> None" by simp
  show ?case
    by (simp add: x v parse_metric_value_carried [OF v] Cons.IH [OF rest] add_metrics_simps)
qed

lemma annotate_slice_append:
  "annotate_slice str nm (ms @ ms') mc =
     (case annotate_slice str nm ms mc of
        (Inl e, mc') \<Rightarrow> (Inl e, mc')
      | (Inr u, mc') \<Rightarrow> annotate_slice str nm ms' mc')"
  by (induction ms arbitrary: mc) (auto split: sum.splits prod.splits)

lemma annotate_append:
  "annotate_eval_result_metrics str mc (ev @ ev') =
     (case annotate_eval_result_metrics str mc ev of
        (Inl e, mc') \<Rightarrow> (Inl e, mc')
      | (Inr u, mc') \<Rightarrow> annotate_eval_result_metrics str mc' ev')"
  by (induction ev arbitrary: mc) (auto split: sum.splits prod.splits pyval.splits)

lemma format_dims_pairs:
  "format_dims str (map (\<lambda>(a, b). PyTuple [a, b]) dims) =
     Inr (map (\<lambda>(a, b). str a @ ''_'' @ str b) dims)"
  by (induction dims) auto


lemma annotate_well_formed:
  "\<forall>(dims, ms)\<in>set slices. \<forall>(n, mv)\<in>set ms. carried_scalar mv \<noteq> None \<Longrightarrow>
   annotate_eval_result_metrics str mc
       (map (\<lambda>(dims, ms). (PyTuple (map (\<lambda>(a, b). PyTuple [a, b]) dims), ms)) slices) =
     (Inr (), add_metrics mc
        (concat (map (\<lambda>(dims, ms).
           map (\<lambda>(n, mv). \<lparr> pm_type = n, pm_value = str (the (carried_scalar mv)),
                              pm_slice = join ''_X_'' (map (\<lambda>(a, b). str a @ ''_'' @ str b) dims) \<rparr>)
               ms) slices)))"
proof (induction slices arbitrary: mc)
  case Nil
  then show ?case by (simp add: add_metrics_simps)
next
  case (Cons x slices)
  obtain dims ms where x: "x = (dims, ms)" by (cases x)
  from Cons.prems x have ms: "\<forall>(n, mv)\<in>set ms. carried_scalar mv \<noteq> None" by simp
  from Cons.prems have rest:
    "\<forall>(dims, ms)\<in>set slices. \<forall>(n, mv)\<in>set ms. carried_scalar mv \<noteq> None" by simp
  show ?case
    by (simp add: x format_dims_pairs annotate_slice_well_shaped [OF ms] Cons.IH [OF rest]
        add_metrics_simps)
qed

lemma length_concat_uniform:
  "\<forall>x\<in>set xs. length (f x) = M \<Longrightarrow> length (concat (map f xs)) = length xs * M"
  by (induction xs) auto

lemma demo_eval_result_slices:
  "demo_eval_result =
     map (\<lambda>(dims, ms). (PyTuple (map (\<lambda>(a, b). PyTuple [a, b]) dims), ms)) demo_slices"
  by (simp add: demo_eval_result_def demo_slices_def)

text \<open>
  C6. For an evaluation result of N slices whose keys are tuples of
  (name, value) pairs and which carry M well-shaped metrics each, the annotator
  returns normally and appends exactly N * M records to the performance-metric
  list, in encounter order: slice by slice and, within a slice, metric by
  metric. Each record has the metric's name, the text rendering of the scalar
  the metric value carries, and the slice label that renders every dimension as
  \<open>name_value\<close> and joins the dimensions with \<open>_X_\<close>; the label of the empty
  tuple is the empty text. This holds for any text rendering \<open>str\<close>.
\<close>

theorem annotate_all_slices_and_metrics:
  assumes "\<forall>(dims, ms)\<in>set slices.
             length ms = M \<and> (\<forall>(n, mv)\<in>set ms. carried_scalar mv \<noteq> None)"
      and "records =
             concat (map (\<lambda>(dims, ms).
               map (\<lambda>(n, mv).
                      \<lparr> pm_type = n, pm_value = str (the (carried_scalar mv)),
                        pm_slice = join ''_X_'' (map (\<lambda>(a, b). str a @ ''_'' @ str b) dims) \<rparr>)
                   ms) slices)"
  shows "annotate_eval_result_metrics str mc
           (map (\<lambda>(dims, ms). (PyTuple (map (\<lambda>(a, b). PyTuple [a, b]) dims), ms)) slices) =
           (Inr (), add_metrics mc records) \<and>
         length records = length slices * M \<and>
         join ''_X_'' (map (\<lambda>(a, b). str a @ ''_'' @ str b) []) = []"
proof -
  from assms(1) have ws:
    "\<forall>(dims, ms)\<in>set slices. \<forall>(n, mv)\<in>set ms. carried_scalar mv \<noteq> None"
    by auto
  have len: "length records = length slices * M"
    unfolding assms(2) using assms(1) by (intro length_concat_uniform) auto
  from annotate_well_formed [OF ws, of str mc] len show ?thesis
    by (simp add: assms(2))
qed

theorem annotate_all_slices_and_metrics_witness:
  "list_all (\<lambda>(dims, ms). length ms = 2 \<and> list_all (\<lambda>(n, mv). carried_scalar mv \<noteq> None) ms)
     demo_slices \<and>
   annotate_eval_result_metrics demo_str new_ModelCard demo_eval_result =
     (Inr (), add_metrics new_ModelCard
        [\<lparr> pm_type = ''loss'', pm_value = ''2'', pm_slice = ''gender_male_X_age_10'' \<rparr>,
         \<lparr> pm_type = ''mean'', pm_value = ''3'', pm_slice = ''gender_male_X_age_10'' \<rparr>,
         \<lparr> pm_type = ''loss'', pm_value = ''1'', pm_slice = [] \<rparr>,
         \<lparr> pm_type = ''mean'', pm_value = ''4'', pm_slice = [] \<rparr>]) \<and>
   length [\<lparr> pm_type = ''loss'', pm_value = ''2'', pm_slice = ''gender_male_X_age_10'' \<rparr>,
         \<lparr> pm_type = ''mean'', pm_value = ''3'', pm_slice = ''gender_male_X_age_10'' \<rparr>,
         \<lparr> pm_type = ''loss'', pm_value = ''1'', pm_slice = [] \<rparr>,
         \<lparr> pm_type = ''mean'', pm_value = ''4'', pm_slice = [] \<rparr>] = length demo_slices * 2"
proof -
  have h: "\<forall>(dims, ms)\<in>set demo_slices.
             length ms = 2 \<and> (\<forall>(n, mv)\<in>set ms. carried_scalar mv \<noteq> None)"
    by (simp add: demo_slices_def carried_scalar_def)
  have recs: "[\<lparr> pm_type = ''loss'', pm_value = ''2'', pm_slice = ''gender_male_X_age_10'' \<rparr>,
         \<lparr> pm_type = ''mean'', pm_value = ''3'', pm_slice = ''gender_male_X_age_10'' \<rparr>,
         \<lparr> pm_type = ''loss'', pm_value = ''1'', pm_slice = [] \<rparr>,
         \<lparr> pm_type = ''mean'', pm_value = ''4'', pm_slice = [] \<rparr>] =
       concat (map (\<lambda>(dims, ms).
               map (\<lambda>(n, mv).
                      \<lparr> pm_type = n, pm_value = demo_str (the (carried_scalar mv)),
                        pm_slice = join ''_X_'' (map (\<lambda>(a, b). demo_str a @ ''_'' @ demo_str b) dims) \<rparr>)
                   ms) demo_slices)"
    by (simp add: demo_slices_def carried_scalar_def str_nat.simps)
  from h have h': "list_all (\<lambda>(dims, ms). length ms = 2 \<and>
      list_all (\<lambda>(n, mv). carried_scalar mv \<noteq> None) ms) demo_slices"
    by (simp add: list_all_iff)
  from annotate_all_slices_and_metrics [OF h recs, of new_ModelCard] h'
  show ?thesis by (simp add: demo_eval_result_slices)
qed

text \<open>
  C7, as the code has it. The annotator fails at the first offending item in
  encounter order, the items before it being annotated without failure: with
  the invalid-slice error when that item is a slice key that is not a tuple,
  and with the unexpected-metric-value error, listing the fields found, when it
  is a metric value with neither a direct-scalar field nor a bounded-value
  field. A metric value with a direct-scalar field is accepted whatever else it
  holds, a bounded-value field included, and its direct scalar is the value
  recorded: at least one of the two shapes is required, not exactly one.
\<close>

theorem annotate_fails_at_first_offending_item:
  assumes "fst (annotate_eval_result_metrics str mc pre) = Inr ()"
  shows "((\<forall>dims. k \<noteq> PyTuple dims) \<longrightarrow>
            fst (annotate_eval_result_metrics str mc (pre @ (k, ms) # post)) =
              Inl (SliceNotTuple k)) \<and>
         (\<forall>dims mpre n mv mpost.
            k = PyTuple (map (\<lambda>(a, b). PyTuple [a, b]) dims) \<and>
            ms = mpre @ (n, mv) # mpost \<and>
            (\<forall>(n', mv')\<in>set mpre. carried_scalar mv' \<noteq> None) \<and>
            map_of mv ''doubleValue'' = None \<and> map_of mv ''boundedValue'' = None \<longrightarrow>
            fst (annotate_eval_result_metrics str mc (pre @ (k, ms) # post)) =
              Inl (UnexpectedMetricValue (map fst mv))) \<and>
         (\<forall>nm n mv v card.
            map_of mv ''doubleValue'' = Some v \<longrightarrow>
            annotate_slice str nm [(n, mv)] card =
              (Inr (), add_metrics card
                         [\<lparr> pm_type = n, pm_value = str v, pm_slice = nm \<rparr>]))"
proof (intro conjI allI impI)
  obtain mc' where pre: "annotate_eval_result_metrics str mc pre = (Inr (), mc')"
    using assms by (cases "annotate_eval_result_metrics str mc pre") auto
  {
    assume "\<forall>dims. k \<noteq> PyTuple dims"
    then show "fst (annotate_eval_result_metrics str mc (pre @ (k, ms) # post)) =
              Inl (SliceNotTuple k)"
      by (cases k) (simp_all add: annotate_append pre)
  next
    fix dims mpre n mv mpost
    assume h: "k = PyTuple (map (\<lambda>(a, b). PyTuple [a, b]) dims) \<and>
            ms = mpre @ (n, mv) # mpost \<and>
            (\<forall>(n', mv')\<in>set mpre. carried_scalar mv' \<noteq> None) \<and>
            map_of mv ''doubleValue'' = None \<and> map_of mv ''boundedValue'' = None"
    then have ws: "\<forall>(n', mv')\<in>set mpre. carried_scalar mv' \<noteq> None" by blast
    from h have bad: "parse_metric_value mv = Inl (UnexpectedMetricValue (map fst mv))"
      by (simp add: parse_metric_value_neither)
    from h show "fst (annotate_eval_result_metrics str mc (pre @ (k, ms) # post)) =
              Inl (UnexpectedMetricValue (map fst mv))"
      by (simp add: annotate_append pre format_dims_pairs annotate_slice_append
          annotate_slice_well_shaped [OF ws] bad)
  next
    fix nm n and mv :: "(string \<times> pyval) list" and v card
    assume "map_of mv ''doubleValue'' = Some v"
    then show "annotate_slice str nm [(n, mv)] card =
              (Inr (), add_metrics card [\<lparr> pm_type = n, pm_value = str v, pm_slice = nm \<rparr>])"
      by (simp add: parse_metric_value_direct add_metrics_def append_metric_def)
  }
qed

theorem annotate_fails_at_first_offending_item_witness:
  "fst (annotate_eval_result_metrics demo_str new_ModelCard demo_eval_result) = Inr () \<and>
   fst (annotate_eval_result_metrics demo_str new_ModelCard
          (demo_eval_result @ (PyInt 3, []) # [])) = Inl (SliceNotTuple (PyInt 3)) \<and>
   fst (annotate_eval_result_metrics demo_str new_ModelCard
          (demo_eval_result @
           (PyTuple (map (\<lambda>(a, b). PyTuple [a, b]) [(PyStr ''age'', PyInt 10)]),
            [(''loss'', [(''doubleValue'', PyInt 1)])] @
            (''auc'', [(''arrayValue'', PyNone)]) # [(''mean'', [(''doubleValue'', PyInt 1)])]) # [])) =
     Inl (UnexpectedMetricValue [''arrayValue'']) \<and>
   annotate_slice demo_str ''s''
     [(''m'', [(''doubleValue'', PyInt 1), (''boundedValue'', PyDict [(''value'', PyInt 2)])])]
     new_ModelCard =
     (Inr (), add_metrics new_ModelCard
                [\<lparr> pm_type = ''m'', pm_value = ''1'', pm_slice = ''s'' \<rparr>])"
proof -
  have ok: "fst (annotate_eval_result_metrics demo_str new_ModelCard demo_eval_result) = Inr ()"
    unfolding demo_eval_result_slices
    by (subst annotate_well_formed) (simp_all add: demo_slices_def carried_scalar_def)
  note w = annotate_fails_at_first_offending_item [OF ok]
  have a: "fst (annotate_eval_result_metrics demo_str new_ModelCard
          (demo_eval_result @ (PyInt 3, []) # [])) = Inl (SliceNotTuple (PyInt 3))"
    using w [of "PyInt 3" "[]" "[]"] by simp
  have b: "fst (annotate_eval_result_metrics demo_str new_ModelCard
          (demo_eval_result @
           (PyTuple (map (\<lambda>(a, b). PyTuple [a, b]) [(PyStr ''age'', PyInt 10)]),
            [(''loss'', [(''doubleValue'', PyInt 1)])] @
            (''auc'', [(''arrayValue'', PyNone)]) # [(''mean'', [(''doubleValue'', PyInt 1)])]) # [])) =
     Inl (UnexpectedMetricValue [''arrayValue''])"
  proof -
    have ws: "\<forall>(n', mv')\<in>set [(''loss'', [(''doubleValue'', PyInt 1)])]. carried_scalar mv' \<noteq> None"
      by (simp add: carried_scalar_def)
    from w [of "PyTuple (map (\<lambda>(a, b). PyTuple [a, b]) [(PyStr ''age'', PyInt 10)])"
        "[(''loss'', [(''doubleValue'', PyInt 1)])] @
            (''auc'', [(''arrayValue'', PyNone)]) # [(''mean'', [(''doubleValue'', PyInt 1)])]" "[]",
        THEN conjunct2, THEN conjunct1, rule_format,
        of "[(PyStr ''age'', PyInt 10)]" "[(''loss'', [(''doubleValue'', PyInt 1)])]"
           "''auc''" "[(''arrayValue'', PyNone)]" "[(''mean'', [(''doubleValue'', PyInt 1)])]"]
      ws
    show ?thesis by simp
  qed
  have c: "annotate_slice demo_str ''s''
     [(''m'', [(''doubleValue'', PyInt 1), (''boundedValue'', PyDict [(''value'', PyInt 2)])])]
     new_ModelCard =
     (Inr (), add_metrics new_ModelCard
                [\<lparr> pm_type = ''m'', pm_value = ''1'', pm_slice = ''s'' \<rparr>])"
    using w [of undefined undefined undefined, THEN conjunct2, THEN conjunct2, rule_format,
        of "[(''doubleValue'', PyInt 1), (''boundedValue'', PyDict [(''value'', PyInt 2)])]"
           "PyInt 1" "''s''" "''m''" new_ModelCard]
    by (simp add: str_nat.simps)
  from ok a b c show ?thesis by (intro conjI)
qed

text \<open>
  C7, as stated, requires a metric value to carry exactly one of the two
  shapes. A value that carries both a direct scalar (1) and a bounded value
  with a \<open>value\<close> sub-field (2) is annotated without failure, with the direct
  scalar.
\<close>

theorem metric_value_with_both_shapes_is_accepted:
  "map_of [(''doubleValue'', PyInt 1), (''boundedValue'', PyDict [(''value'', PyInt 2)])]
      ''doubleValue'' = Some (PyInt 1) \<and>
   carried_scalar [(''boundedValue'', PyDict [(''value'', PyInt 2)])] = Some (PyInt 2) \<and>
   annotate_eval_result_metrics demo_str new_ModelCard
     [(PyTuple [],
       [(''m'', [(''doubleValue'', PyInt 1),
                 (''boundedValue'', PyDict [(''value'', PyInt 2)])])])] =
     (Inr (), add_metrics new_ModelCard
                [\<lparr> pm_type = ''m'', pm_value = ''1'', pm_slice = [] \<rparr>])"
  by (simp add: parse_metric_value_def carried_scalar_def add_metrics_def append_metric_def
      str_nat.simps)

lemma annotate_frame:
  "\<exists>recs. snd (annotate_eval_result_metrics str mc ev) = add_metrics mc recs"
proof (induction ev arbitrary: mc)
  case Nil
  have "snd (annotate_eval_result_metrics str mc []) = add_metrics mc []"
    by (simp add: add_metrics_simps)
  then show ?case by blast
next
  case (Cons x ev)
  obtain k ms where x: "x = (k, ms)" by (cases x)
  have slice: "\<exists>recs. snd (annotate_slice str nm ms mc) = add_metrics mc recs" for nm ms mc
  proof (induction ms arbitrary: mc)
    case Nil
    have "snd (annotate_slice str nm [] mc) = add_metrics mc []"
      by (simp add: add_metrics_simps)
    then show ?case by blast
  next
    case (Cons y ms)
    obtain n mv where y: "y = (n, mv)" by (cases y)
    show ?case
    proof (cases "parse_metric_value mv")
      case (Inl e)
      then have "snd (annotate_slice str nm (y # ms) mc) = add_metrics mc []"
        by (simp add: y add_metrics_simps)
      then show ?thesis by blast
    next
      case (Inr v)
      from Cons.IH [of "append_metric mc \<lparr> pm_type = n, pm_value = str v, pm_slice = nm \<rparr>"]
      obtain recs where
        "snd (annotate_slice str nm ms
               (append_metric mc \<lparr> pm_type = n, pm_value = str v, pm_slice = nm \<rparr>)) =
         add_metrics mc (\<lparr> pm_type = n, pm_value = str v, pm_slice = nm \<rparr> # recs)"
        by (auto simp: add_metrics_simps)
      with Inr show ?thesis by (auto simp: y)
    qed
  qed
  show ?case
  proof (cases "\<exists>dims parts. k = PyTuple dims \<and> format_dims str dims = Inr parts")
    case False
    then have "snd (annotate_eval_result_metrics str mc (x # ev)) = add_metrics mc []"
      by (auto simp: x add_metrics_simps split: pyval.splits sum.splits)
    then show ?thesis by blast
  next
    case True
    then obtain dims parts where k: "k = PyTuple dims" "format_dims str dims = Inr parts"
      by blast
    obtain res mc' where r: "annotate_slice str (join ''_X_'' parts) ms mc = (res, mc')"
      by (cases "annotate_slice str (join ''_X_'' parts) ms mc")
    from slice [of "join ''_X_'' parts" ms mc] r obtain recs where
      mc': "mc' = add_metrics mc recs" by auto
    show ?thesis
    proof (cases res)
      case (Inl e)
      with r k mc' have "snd (annotate_eval_result_metrics str mc (x # ev)) = add_metrics mc recs"
        by (simp add: x)
      then show ?thesis by blast
    next
      case (Inr u)
      from Cons.IH [of mc'] obtain recs' where
        "snd (annotate_eval_result_metrics str mc' ev) = add_metrics mc' recs'" by blast
      with Inr r k mc' have
        "snd (annotate_eval_result_metrics str mc (x # ev)) = add_metrics mc (recs @ recs')"
        by (simp add: x add_metrics_simps)
      then show ?thesis by blast
    qed
  qed
qed

text \<open>
  C10. Whether the annotator returns normally or fails, the model card it
  leaves is the model card it was given with records added at the end of the
  performance-metric list: the records present before the call stay in place
  and unchanged, and the model details (name, version, references) are not
  modified.
\<close>

theorem annotate_only_appends:
  "\<exists>recs. snd (annotate_eval_result_metrics str mc ev) = add_metrics mc recs \<and>
          model_details (snd (annotate_eval_result_metrics str mc ev)) = model_details mc \<and>
          performance_metrics (quantitative_analysis (snd (annotate_eval_result_metrics str mc ev))) =
            performance_metrics (quantitative_analysis mc) @ recs"
proof -
  from annotate_frame [of str mc ev] obtain recs where
    r: "snd (annotate_eval_result_metrics str mc ev) = add_metrics mc recs" by blast
  then show ?thesis by (auto simp: add_metrics_def)
qed


theorem annotate_only_appends_witness:
  "model_details
     (snd (annotate_eval_result_metrics demo_str
             (add_metrics new_ModelCard [\<lparr> pm_type = ''old'', pm_value = ''0'', pm_slice = [] \<rparr>])
             (demo_eval_result @ [(PyInt 3, [])]))) = model_details new_ModelCard \<and>
   take 1 (performance_metrics (quantitative_analysis
     (snd (annotate_eval_result_metrics demo_str
             (add_metrics new_ModelCard [\<lparr> pm_type = ''old'', pm_value = ''0'', pm_slice = [] \<rparr>])
             (demo_eval_result @ [(PyInt 3, [])]))))) =
     [\<lparr> pm_type = ''old'', pm_value = ''0'', pm_slice = [] \<rparr>]"
proof -
  from annotate_only_appends [of demo_str
      "add_metrics new_ModelCard [\<lparr> pm_type = ''old'', pm_value = ''0'', pm_slice = [] \<rparr>]"
      "demo_eval_result @ [(PyInt 3, [])]"]
  obtain recs where
    m: "model_details
     (snd (annotate_eval_result_metrics demo_str
             (add_metrics new_ModelCard [\<lparr> pm_type = ''old'', pm_value = ''0'', pm_slice = [] \<rparr>])
             (demo_eval_result @ [(PyInt 3, [])]))) =
        model_details (add_metrics new_ModelCard [\<lparr> pm_type = ''old'', pm_value = ''0'', pm_slice = [] \<rparr>])"
    and p: "performance_metrics (quantitative_analysis
     (snd (annotate_eval_result_metrics demo_str
             (add_metrics new_ModelCard [\<lparr> pm_type = ''old'', pm_value = ''0'', pm_slice = [] \<rparr>])
             (demo_eval_result @ [(PyInt 3, [])])))) =
       performance_metrics (quantitative_analysis
         (add_metrics new_ModelCard [\<lparr> pm_type = ''old'', pm_value = ''0'', pm_slice = [] \<rparr>])) @ recs"
    by blast
  from m p show ?thesis by (simp add: add_metrics_def new_ModelCard_def)
qed

end
